theory Spec2Isabelle
  imports Main "HOL-Library.Word"
begin

unbundle bit_operations_syntax

section \<open>A shallow embedding of the sockpuppet socket library\<close>

text \<open>
  The library is one C code base with a forest of conditional compilation. The embedding
  follows the branches a little-endian Linux/glibc build takes: \<^verbatim>\<open>_WINDOWS\<close>,
  \<^verbatim>\<open>__OS2__\<close>, \<^verbatim>\<open>P_OS_SCO\<close> and \<^verbatim>\<open>hpux\<close> are undefined;
  \<^verbatim>\<open>AF_INET6\<close>, \<^verbatim>\<open>EINTR\<close>, \<^verbatim>\<open>SO_DOMAIN\<close>, \<^verbatim>\<open>SO_REUSEPORT\<close>,
  \<^verbatim>\<open>SOCK_CLOEXEC\<close> and \<^verbatim>\<open>MSG_NOSIGNAL\<close> are defined, \<^verbatim>\<open>SO_NOSIGPIPE\<close> is not.
  Numeric values of system constants (errno numbers, address families, socket types) are
  those of the Linux headers. The readiness wait is modelled for both POSIX back ends
  (\<^verbatim>\<open>SOCKET_USE_POLL\<close> and \<^verbatim>\<open>SOCKET_USE_SELECT\<close>). Embedded are error.c, the
  constructors, converters and accessors of socketaddress.c (all but the textual form of
  an address), \<^verbatim>\<open>sys_close\<close> of util.c, and of socket.c the construction from a
  descriptor, the accessors and setters and every operation on an existing socket.

  C data is modelled as follows: \<^verbatim>\<open>int32_t\<close> and \<^verbatim>\<open>uint32_t\<close> are \<open>32 word\<close>
  (signed tests read the word with \<open>sint\<close>), \<^verbatim>\<open>uint16_t\<close> is \<open>16 word\<close>, a byte is
  \<open>8 word\<close>, raw memory is a list of bytes, a pointer that may be \<^verbatim>\<open>NULL\<close> is an
  \<open>option\<close>, and a length of type \<^verbatim>\<open>size_t\<close> is a \<open>nat\<close>.
\<close>

type_synonym byte = "8 word"
type_synonym uint16_t = "16 word"
type_synonym uint32_t = "32 word"
type_synonym int32_t = "32 word"

subsection \<open>Byte order and raw memory\<close>

text \<open>Host order is little-endian: a 16-bit or 32-bit object in memory has its least
  significant byte first.\<close>

definition le16 :: "byte \<Rightarrow> byte \<Rightarrow> uint16_t" where
  "le16 b0 b1 = ucast b0 OR push_bit 8 (ucast b1)"

definition le32 :: "byte \<Rightarrow> byte \<Rightarrow> byte \<Rightarrow> byte \<Rightarrow> uint32_t" where
  "le32 b0 b1 b2 b3 =
     ucast b0 OR push_bit 8 (ucast b1) OR push_bit 16 (ucast b2) OR push_bit 24 (ucast b3)"

text \<open>Reading a \<^verbatim>\<open>uint16_t\<close> or \<^verbatim>\<open>uint32_t\<close> object from the start of a memory image.
  Every read the theorems below depend on lies inside the image; a read that runs past the
  end of a shorter image (undefined in C) sees zero bytes in the model.\<close>

definition load16 :: "byte list \<Rightarrow> uint16_t" where
  "load16 bs = (case bs of
       b0 # b1 # _ \<Rightarrow> le16 b0 b1
     | [b0] \<Rightarrow> le16 b0 0
     | [] \<Rightarrow> 0)"

definition store16 :: "uint16_t \<Rightarrow> byte list" where
  "store16 w = [ucast w, ucast (drop_bit 8 w)]"

definition load32 :: "byte list \<Rightarrow> uint32_t" where
  "load32 bs = (case bs of
       b0 # b1 # b2 # b3 # _ \<Rightarrow> le32 b0 b1 b2 b3
     | [b0, b1, b2] \<Rightarrow> le32 b0 b1 b2 0
     | [b0, b1] \<Rightarrow> le32 b0 b1 0 0
     | [b0] \<Rightarrow> le32 b0 0 0 0
     | [] \<Rightarrow> 0)"

definition store32 :: "uint32_t \<Rightarrow> byte list" where
  "store32 w = [ucast w, ucast (drop_bit 8 w), ucast (drop_bit 16 w), ucast (drop_bit 24 w)]"

text \<open>\<^verbatim>\<open>htons\<close>, \<^verbatim>\<open>ntohs\<close> and \<^verbatim>\<open>ntohl\<close> swap bytes on a little-endian host: the
  result's memory image is the argument's, reversed.\<close>

definition htons :: "uint16_t \<Rightarrow> uint16_t" where
  "htons w = load16 (rev (store16 w))"

definition ntohs :: "uint16_t \<Rightarrow> uint16_t" where
  "ntohs w = load16 (rev (store16 w))"

definition ntohl :: "uint32_t \<Rightarrow> uint32_t" where
  "ntohl w = load32 (rev (store32 w))"

text \<open>\<^verbatim>\<open>memcpy (dst + off, src, n)\<close> on a memory image.\<close>

definition memcpy :: "byte list \<Rightarrow> nat \<Rightarrow> byte list \<Rightarrow> nat \<Rightarrow> byte list" where
  "memcpy dst off src n = take off dst @ take n src @ drop (off + n) dst"

text \<open>\<^verbatim>\<open>memset (dst + off, 0, n)\<close>.\<close>

definition memset0 :: "byte list \<Rightarrow> nat \<Rightarrow> nat \<Rightarrow> byte list" where
  "memset0 dst off n = take off dst @ replicate n 0 @ drop (off + n) dst"

subsection \<open>error.c: the error classification\<close>

datatype ErrorIO =
    ERROR_IO_NONE
  | ERROR_IO_NO_RESOURCES
  | ERROR_IO_NOT_AVAILABLE
  | ERROR_IO_ACCESS_DENIED
  | ERROR_IO_CONNECTED
  | ERROR_IO_IN_PROGRESS
  | ERROR_IO_ABORTED
  | ERROR_IO_INVALID_ARGUMENT
  | ERROR_IO_NOT_SUPPORTED
  | ERROR_IO_TIMED_OUT
  | ERROR_IO_WOULD_BLOCK
  | ERROR_IO_ADDRESS_IN_USE
  | ERROR_IO_CONNECTION_REFUSED
  | ERROR_IO_NOT_CONNECTED
  | ERROR_IO_QUOTA
  | ERROR_IO_IS_DIRECTORY
  | ERROR_IO_NOT_DIRECTORY
  | ERROR_IO_NAMETOOLONG
  | ERROR_IO_EXISTS
  | ERROR_IO_NOT_EXISTS
  | ERROR_IO_NO_MORE
  | ERROR_IO_NOT_IMPLEMENTED
  | ERROR_IO_FAILED

text \<open>The enumerators' numeric values (error.h), which is what \<^verbatim>\<open>(int32_t) kind\<close>
  stores in the error state.\<close>

fun ErrorIO_value :: "ErrorIO \<Rightarrow> int32_t" where
  "ErrorIO_value ERROR_IO_NONE = 500"
| "ErrorIO_value ERROR_IO_NO_RESOURCES = 501"
| "ErrorIO_value ERROR_IO_NOT_AVAILABLE = 502"
| "ErrorIO_value ERROR_IO_ACCESS_DENIED = 503"
| "ErrorIO_value ERROR_IO_CONNECTED = 504"
| "ErrorIO_value ERROR_IO_IN_PROGRESS = 505"
| "ErrorIO_value ERROR_IO_ABORTED = 506"
| "ErrorIO_value ERROR_IO_INVALID_ARGUMENT = 507"
| "ErrorIO_value ERROR_IO_NOT_SUPPORTED = 508"
| "ErrorIO_value ERROR_IO_TIMED_OUT = 509"
| "ErrorIO_value ERROR_IO_WOULD_BLOCK = 510"
| "ErrorIO_value ERROR_IO_ADDRESS_IN_USE = 511"
| "ErrorIO_value ERROR_IO_CONNECTION_REFUSED = 512"
| "ErrorIO_value ERROR_IO_NOT_CONNECTED = 513"
| "ErrorIO_value ERROR_IO_QUOTA = 514"
| "ErrorIO_value ERROR_IO_IS_DIRECTORY = 515"
| "ErrorIO_value ERROR_IO_NOT_DIRECTORY = 516"
| "ErrorIO_value ERROR_IO_NAMETOOLONG = 517"
| "ErrorIO_value ERROR_IO_EXISTS = 518"
| "ErrorIO_value ERROR_IO_NOT_EXISTS = 519"
| "ErrorIO_value ERROR_IO_NO_MORE = 520"
| "ErrorIO_value ERROR_IO_NOT_IMPLEMENTED = 521"
| "ErrorIO_value ERROR_IO_FAILED = 522"

text \<open>The 23 enumerators, in declaration order.\<close>

definition ErrorIO_all :: "ErrorIO list" where
  "ErrorIO_all =
    [ERROR_IO_NONE, ERROR_IO_NO_RESOURCES, ERROR_IO_NOT_AVAILABLE, ERROR_IO_ACCESS_DENIED,
     ERROR_IO_CONNECTED, ERROR_IO_IN_PROGRESS, ERROR_IO_ABORTED, ERROR_IO_INVALID_ARGUMENT,
     ERROR_IO_NOT_SUPPORTED, ERROR_IO_TIMED_OUT, ERROR_IO_WOULD_BLOCK, ERROR_IO_ADDRESS_IN_USE,
     ERROR_IO_CONNECTION_REFUSED, ERROR_IO_NOT_CONNECTED, ERROR_IO_QUOTA, ERROR_IO_IS_DIRECTORY,
     ERROR_IO_NOT_DIRECTORY, ERROR_IO_NAMETOOLONG, ERROR_IO_EXISTS, ERROR_IO_NOT_EXISTS,
     ERROR_IO_NO_MORE, ERROR_IO_NOT_IMPLEMENTED, ERROR_IO_FAILED]"

text \<open>The errno numbers of \<^verbatim>\<open><errno.h>\<close> on Linux.\<close>

definition EPERM :: int32_t where "EPERM = 1"
definition ENOENT :: int32_t where "ENOENT = 2"
definition EINTR :: int32_t where "EINTR = 4"
definition EBADF :: int32_t where "EBADF = 9"
definition EAGAIN :: int32_t where "EAGAIN = 11"
definition ENOMEM :: int32_t where "ENOMEM = 12"
definition EACCES :: int32_t where "EACCES = 13"
definition EFAULT :: int32_t where "EFAULT = 14"
definition EEXIST :: int32_t where "EEXIST = 17"
definition ENOTDIR :: int32_t where "ENOTDIR = 20"
definition EISDIR :: int32_t where "EISDIR = 21"
definition EINVAL :: int32_t where "EINVAL = 22"
definition ENFILE :: int32_t where "ENFILE = 23"
definition EMFILE :: int32_t where "EMFILE = 24"
definition ENOSPC :: int32_t where "ENOSPC = 28"
definition ENAMETOOLONG :: int32_t where "ENAMETOOLONG = 36"
definition ENOSYS :: int32_t where "ENOSYS = 38"
definition ENOSR :: int32_t where "ENOSR = 63"
definition ENONET :: int32_t where "ENONET = 64"
definition ENOTSOCK :: int32_t where "ENOTSOCK = 88"
definition EPROTOTYPE :: int32_t where "EPROTOTYPE = 91"
definition ENOPROTOOPT :: int32_t where "ENOPROTOOPT = 92"
definition EPROTONOSUPPORT :: int32_t where "EPROTONOSUPPORT = 93"
definition EOPNOTSUPP :: int32_t where "EOPNOTSUPP = 95"
definition EAFNOSUPPORT :: int32_t where "EAFNOSUPPORT = 97"
definition EADDRINUSE :: int32_t where "EADDRINUSE = 98"
definition EADDRNOTAVAIL :: int32_t where "EADDRNOTAVAIL = 99"
definition ENETDOWN :: int32_t where "ENETDOWN = 100"
definition ENETUNREACH :: int32_t where "ENETUNREACH = 101"
definition ECONNABORTED :: int32_t where "ECONNABORTED = 103"
definition ENOBUFS :: int32_t where "ENOBUFS = 105"
definition EISCONN :: int32_t where "EISCONN = 106"
definition ENOTCONN :: int32_t where "ENOTCONN = 107"
definition ETIMEDOUT :: int32_t where "ETIMEDOUT = 110"
definition ECONNREFUSED :: int32_t where "ECONNREFUSED = 111"
definition EHOSTDOWN :: int32_t where "EHOSTDOWN = 112"
definition EHOSTUNREACH :: int32_t where "EHOSTUNREACH = 113"
definition EALREADY :: int32_t where "EALREADY = 114"
definition EINPROGRESS :: int32_t where "EINPROGRESS = 115"
definition EDQUOT :: int32_t where "EDQUOT = 122"

text \<open>
  \<^verbatim>\<open>error_get_io_from_system\<close>: the \<^verbatim>\<open>switch\<close> of the POSIX branch, one test per
  \<^verbatim>\<open>case\<close> label in the order of the source. On Linux \<^verbatim>\<open>ENOTSUP == EOPNOTSUPP\<close>, so the
  preprocessor drops the \<^verbatim>\<open>ENOTSUP\<close> label, and \<^verbatim>\<open>EWOULDBLOCK == EAGAIN\<close>, so only
  the \<^verbatim>\<open>EAGAIN\<close> label is emitted.
\<close>

definition error_get_io_from_system :: "int32_t \<Rightarrow> ErrorIO" where
  "error_get_io_from_system err_code =
    (if err_code = 0 then ERROR_IO_NONE
     else if err_code = EACCES then ERROR_IO_ACCESS_DENIED
     else if err_code = EPERM then ERROR_IO_ACCESS_DENIED
     else if err_code = ENOMEM then ERROR_IO_NO_RESOURCES
     else if err_code = ENOSR then ERROR_IO_NO_RESOURCES
     else if err_code = ENOBUFS then ERROR_IO_NO_RESOURCES
     else if err_code = ENFILE then ERROR_IO_NO_RESOURCES
     else if err_code = ENOSPC then ERROR_IO_NO_RESOURCES
     else if err_code = EMFILE then ERROR_IO_NO_RESOURCES
     else if err_code = EINVAL then ERROR_IO_INVALID_ARGUMENT
     else if err_code = EBADF then ERROR_IO_INVALID_ARGUMENT
     else if err_code = ENOTSOCK then ERROR_IO_INVALID_ARGUMENT
     else if err_code = EFAULT then ERROR_IO_INVALID_ARGUMENT
     else if err_code = EPROTOTYPE then ERROR_IO_INVALID_ARGUMENT
     else if err_code = ENOPROTOOPT then ERROR_IO_NOT_SUPPORTED
     else if err_code = EPROTONOSUPPORT then ERROR_IO_NOT_SUPPORTED
     else if err_code = EAFNOSUPPORT then ERROR_IO_NOT_SUPPORTED
     else if err_code = EOPNOTSUPP then ERROR_IO_NOT_SUPPORTED
     else if err_code = EADDRNOTAVAIL then ERROR_IO_NOT_AVAILABLE
     else if err_code = ENETUNREACH then ERROR_IO_NOT_AVAILABLE
     else if err_code = ENETDOWN then ERROR_IO_NOT_AVAILABLE
     else if err_code = EHOSTDOWN then ERROR_IO_NOT_AVAILABLE
     else if err_code = ENONET then ERROR_IO_NOT_AVAILABLE
     else if err_code = EHOSTUNREACH then ERROR_IO_NOT_AVAILABLE
     else if err_code = EINPROGRESS then ERROR_IO_IN_PROGRESS
     else if err_code = EALREADY then ERROR_IO_IN_PROGRESS
     else if err_code = EISCONN then ERROR_IO_CONNECTED
     else if err_code = ECONNREFUSED then ERROR_IO_CONNECTION_REFUSED
     else if err_code = ENOTCONN then ERROR_IO_NOT_CONNECTED
     else if err_code = ECONNABORTED then ERROR_IO_ABORTED
     else if err_code = EADDRINUSE then ERROR_IO_ADDRESS_IN_USE
     else if err_code = ETIMEDOUT then ERROR_IO_TIMED_OUT
     else if err_code = EDQUOT then ERROR_IO_QUOTA
     else if err_code = EISDIR then ERROR_IO_IS_DIRECTORY
     else if err_code = ENOTDIR then ERROR_IO_NOT_DIRECTORY
     else if err_code = EEXIST then ERROR_IO_EXISTS
     else if err_code = ENOENT then ERROR_IO_NOT_EXISTS
     else if err_code = ENAMETOOLONG then ERROR_IO_NAMETOOLONG
     else if err_code = ENOSYS then ERROR_IO_NOT_IMPLEMENTED
     else if err_code = EAGAIN then ERROR_IO_WOULD_BLOCK
     else ERROR_IO_FAILED)"

text \<open>The \<^verbatim>\<open>case\<close> labels of that \<^verbatim>\<open>switch\<close>: the numbers the function maps explicitly.\<close>

definition mapped_error_numbers :: "int32_t list" where
  "mapped_error_numbers =
    [0, EACCES, EPERM, ENOMEM, ENOSR, ENOBUFS, ENFILE, ENOSPC, EMFILE, EINVAL, EBADF,
     ENOTSOCK, EFAULT, EPROTOTYPE, ENOPROTOOPT, EPROTONOSUPPORT, EAFNOSUPPORT, EOPNOTSUPP,
     EADDRNOTAVAIL, ENETUNREACH, ENETDOWN, EHOSTDOWN, ENONET, EHOSTUNREACH, EINPROGRESS,
     EALREADY, EISCONN, ECONNREFUSED, ENOTCONN, ECONNABORTED, EADDRINUSE, ETIMEDOUT, EDQUOT,
     EISDIR, ENOTDIR, EEXIST, ENOENT, ENAMETOOLONG, ENOSYS, EAGAIN]"

subsection \<open>socketaddress.c: the socket address value\<close>

datatype SocketFamily = SOCKET_FAMILY_UNKNOWN | SOCKET_FAMILY_INET | SOCKET_FAMILY_INET6

text \<open>The family tags and structure sizes of the Linux ABI. A native address starts with
  the 16-bit family tag and the port in network order. \<^verbatim>\<open>struct sockaddr_in\<close> continues
  with the 4 address bytes at offset 4 and 8 bytes of padding (\<^verbatim>\<open>sin_zero\<close>);
  \<^verbatim>\<open>struct sockaddr_in6\<close> with the flow-info at offset 4, the 16 address bytes at
  offset 8 and the scope-id at offset 24.\<close>

definition AF_INET :: uint16_t where "AF_INET = 2"
definition AF_INET6 :: uint16_t where "AF_INET6 = 10"

definition sizeof_sockaddr_in :: nat where "sizeof_sockaddr_in = 16"
definition sizeof_sockaddr_in6 :: nat where "sizeof_sockaddr_in6 = 28"
definition sizeof_in_addr :: nat where "sizeof_in_addr = 4"
definition sizeof_in6_addr :: nat where "sizeof_in6_addr = 16"

text \<open>\<^verbatim>\<open>struct SocketAddress\<close>. The field \<open>addr\<close> is the memory of the union of
  \<^verbatim>\<open>struct in_addr\<close> and \<^verbatim>\<open>struct in6_addr\<close>: 16 bytes, of which an IPv4 address
  uses the first four.\<close>

record SocketAddress =
  family :: SocketFamily
  addr :: "byte list"
  port :: uint16_t
  flowinfo :: uint32_t
  scope_id :: uint32_t

text \<open>\<^verbatim>\<open>calloc (sizeof (SocketAddress), 1)\<close>: \<open>None\<close> is the \<^verbatim>\<open>NULL\<close> of a failed
  allocation, otherwise the structure is zero-filled. Whether memory is available is an
  input of every constructor (\<open>mem_ok\<close>).\<close>

definition calloc_SocketAddress :: "bool \<Rightarrow> SocketAddress option" where
  "calloc_SocketAddress mem_ok =
    (if mem_ok
     then Some \<lparr>family = SOCKET_FAMILY_UNKNOWN, addr = replicate 16 0, port = 0,
                flowinfo = 0, scope_id = 0\<rparr>
     else None)"

text \<open>\<^verbatim>\<open>socket_address_new_from_native (native, len)\<close>; \<open>native\<close> is the memory the
  pointer refers to.\<close>

definition socket_address_new_from_native ::
    "bool \<Rightarrow> byte list option \<Rightarrow> nat \<Rightarrow> SocketAddress option" where
  "socket_address_new_from_native mem_ok native len =
    (case native of
       None \<Rightarrow> None
     | Some mem \<Rightarrow>
        if len = 0 then None
        else (case calloc_SocketAddress mem_ok of
           None \<Rightarrow> None
         | Some ret \<Rightarrow>
            let sa_family = load16 mem in
            if sa_family = AF_INET then
              if len < sizeof_sockaddr_in then None
              else Some (ret\<lparr>addr := memcpy (addr ret) 0 (drop 4 mem) sizeof_in_addr,
                              family := SOCKET_FAMILY_INET,
                              port := ntohs (load16 (drop 2 mem))\<rparr>)
            else if sa_family = AF_INET6 then
              if len < sizeof_sockaddr_in6 then None
              else Some (ret\<lparr>addr := memcpy (addr ret) 0 (drop 8 mem) sizeof_in6_addr,
                              family := SOCKET_FAMILY_INET6,
                              port := ntohs (load16 (drop 2 mem)),
                              flowinfo := load32 (drop 4 mem),
                              scope_id := load32 (drop 24 mem)\<rparr>)
            else None))"

text \<open>The C library's numeric address parsers, which \<^verbatim>\<open>socket_address_new\<close> calls, are
  parameters of the model. \<open>getaddrinfo_numeric\<close> is \<^verbatim>\<open>getaddrinfo\<close> with
  \<^verbatim>\<open>AI_NUMERICHOST\<close> hints (\<open>None\<close> when it returns non-zero, otherwise the first result);
  \<open>inet_pton af text\<close> is \<open>Some\<close> of the bytes \<^verbatim>\<open>inet_pton\<close> writes when it returns a
  positive value, and \<open>None\<close> when it writes nothing.\<close>

record addrinfo =
  ai_family :: int32_t
  ai_addrlen :: nat
  ai_addr :: "byte list"

record libc =
  getaddrinfo_numeric :: "string \<Rightarrow> addrinfo option"
  inet_pton :: "uint16_t \<Rightarrow> string \<Rightarrow> byte list option"

text \<open>\<^verbatim>\<open>socket_address_new (address, port)\<close>: a text with a colon goes through
  \<^verbatim>\<open>getaddrinfo\<close> and \<^verbatim>\<open>socket_address_new_from_native\<close>; any other text through
  \<^verbatim>\<open>inet_pton\<close>, IPv4 first. (The source declares the locals of the \<^verbatim>\<open>getaddrinfo\<close>
  branch under \<^verbatim>\<open>_WINDOWS\<close> only, but compiles the branch wherever \<^verbatim>\<open>AF_INET6\<close> is
  defined; the model follows the branch.)\<close>

definition socket_address_new ::
    "libc \<Rightarrow> bool \<Rightarrow> string option \<Rightarrow> uint16_t \<Rightarrow> SocketAddress option" where
  "socket_address_new L mem_ok address prt =
    (case address of
       None \<Rightarrow> None
     | Some text \<Rightarrow>
        if CHR '':'' \<in> set text then
          (case getaddrinfo_numeric L text of
             None \<Rightarrow> None
           | Some res \<Rightarrow>
              if ai_family res = ucast AF_INET6 \<and> ai_addrlen res = sizeof_sockaddr_in6
              then socket_address_new_from_native mem_ok
                     (Some (memcpy (ai_addr res) 2 (store16 (htons prt)) 2)) (ai_addrlen res)
              else None)
        else (case calloc_SocketAddress mem_ok of
           None \<Rightarrow> None
         | Some ret0 \<Rightarrow>
            let ret = ret0\<lparr>port := prt\<rparr> in
            (case inet_pton L AF_INET text of
               Some bs \<Rightarrow>
                 Some (ret\<lparr>addr := memcpy (addr ret) 0 bs sizeof_in_addr,
                            family := SOCKET_FAMILY_INET\<rparr>)
             | None \<Rightarrow>
                (case inet_pton L AF_INET6 text of
                   Some bs \<Rightarrow>
                     Some (ret\<lparr>addr := memcpy (addr ret) 0 bs sizeof_in6_addr,
                                family := SOCKET_FAMILY_INET6\<rparr>)
                 | None \<Rightarrow> None))))"

definition any_addr :: "byte list" where "any_addr = [0, 0, 0, 0]"
definition any6_addr :: "byte list" where "any6_addr = replicate 16 0"
definition loop_addr :: "byte list" where "loop_addr = [127, 0, 0, 0]"
definition loop6_addr :: "byte list" where "loop6_addr = replicate 15 0 @ [1]"

definition socket_address_new_any ::
    "bool \<Rightarrow> SocketFamily \<Rightarrow> uint16_t \<Rightarrow> SocketAddress option" where
  "socket_address_new_any mem_ok fam prt =
    (case calloc_SocketAddress mem_ok of
       None \<Rightarrow> None
     | Some ret \<Rightarrow>
        if fam = SOCKET_FAMILY_INET then
          Some (ret\<lparr>addr := memcpy (addr ret) 0 any_addr 4, family := fam, port := prt\<rparr>)
        else if fam = SOCKET_FAMILY_INET6 then
          Some (ret\<lparr>addr := memcpy (addr ret) 0 any6_addr 16, family := fam, port := prt\<rparr>)
        else None)"

definition socket_address_new_loopback ::
    "bool \<Rightarrow> SocketFamily \<Rightarrow> uint16_t \<Rightarrow> SocketAddress option" where
  "socket_address_new_loopback mem_ok fam prt =
    (case calloc_SocketAddress mem_ok of
       None \<Rightarrow> None
     | Some ret \<Rightarrow>
        if fam = SOCKET_FAMILY_INET then
          Some (ret\<lparr>addr := memcpy (addr ret) 0 loop_addr 4, family := fam, port := prt\<rparr>)
        else if fam = SOCKET_FAMILY_INET6 then
          Some (ret\<lparr>addr := memcpy (addr ret) 0 loop6_addr 16, family := fam, port := prt\<rparr>)
        else None)"

text \<open>\<^verbatim>\<open>socket_address_to_native (addr, dest, destlen)\<close> returns its \<^verbatim>\<open>bool\<close> and the
  memory at \<open>dest\<close> after the call. The writes are those of the source, in its order.\<close>

definition socket_address_to_native ::
    "SocketAddress option \<Rightarrow> byte list option \<Rightarrow> nat \<Rightarrow> bool \<times> byte list option" where
  "socket_address_to_native address dest destlen =
    (case address of
       None \<Rightarrow> (False, dest)
     | Some a \<Rightarrow>
        (case dest of
           None \<Rightarrow> (False, dest)
         | Some d \<Rightarrow>
            if destlen = 0 then (False, dest)
            else if family a = SOCKET_FAMILY_INET then
              if destlen < sizeof_sockaddr_in then (False, dest)
              else
                let d1 = memcpy d 4 (addr a) sizeof_in_addr;
                    d2 = memcpy d1 0 (store16 AF_INET) 2;
                    d3 = memcpy d2 2 (store16 (htons (port a))) 2;
                    d4 = memset0 d3 8 8
                in (True, Some d4)
            else if family a = SOCKET_FAMILY_INET6 then
              if destlen < sizeof_sockaddr_in6 then (False, dest)
              else
                let d1 = memcpy d 8 (addr a) sizeof_in6_addr;
                    d2 = memcpy d1 0 (store16 AF_INET6) 2;
                    d3 = memcpy d2 2 (store16 (htons (port a))) 2;
                    d4 = memcpy d3 4 (store32 (flowinfo a)) 4;
                    d5 = memcpy d4 24 (store32 (scope_id a)) 4
                in (True, Some d5)
            else (False, dest)))"

definition socket_address_get_native_size :: "SocketAddress option \<Rightarrow> nat" where
  "socket_address_get_native_size address =
    (case address of
       None \<Rightarrow> 0
     | Some a \<Rightarrow>
        if family a = SOCKET_FAMILY_INET then sizeof_sockaddr_in
        else if family a = SOCKET_FAMILY_INET6 then sizeof_sockaddr_in6
        else 0)"

definition socket_address_get_family :: "SocketAddress option \<Rightarrow> SocketFamily" where
  "socket_address_get_family address =
    (case address of None \<Rightarrow> SOCKET_FAMILY_UNKNOWN | Some a \<Rightarrow> family a)"

definition socket_address_get_port :: "SocketAddress option \<Rightarrow> uint16_t" where
  "socket_address_get_port address = (case address of None \<Rightarrow> 0 | Some a \<Rightarrow> port a)"

text \<open>The flow-info and scope-id accessors are compiled in two variants, selected by the
  macros \<^verbatim>\<open>PLIBSYS_SOCKADDR_IN6_HAS_FLOWINFO\<close> and \<^verbatim>\<open>PLIBSYS_SOCKADDR_IN6_HAS_SCOPEID\<close>.
  Both variants are modelled, with the two macros as parameters. No file of the repository
  defines either macro: the build the repository ships is \<open>shipped_build\<close> below, the one
  with neither.\<close>

record build_config =
  PLIBSYS_SOCKADDR_IN6_HAS_FLOWINFO :: bool
  PLIBSYS_SOCKADDR_IN6_HAS_SCOPEID :: bool

definition socket_address_get_flow_info ::
    "build_config \<Rightarrow> SocketAddress option \<Rightarrow> uint32_t" where
  "socket_address_get_flow_info cfg address =
    (case address of
       None \<Rightarrow> 0
     | Some a \<Rightarrow>
        if \<not> PLIBSYS_SOCKADDR_IN6_HAS_FLOWINFO cfg then 0
        else if family a \<noteq> SOCKET_FAMILY_INET6 then 0
        else flowinfo a)"

definition socket_address_get_scope_id ::
    "build_config \<Rightarrow> SocketAddress option \<Rightarrow> uint32_t" where
  "socket_address_get_scope_id cfg address =
    (case address of
       None \<Rightarrow> 0
     | Some a \<Rightarrow>
        if \<not> PLIBSYS_SOCKADDR_IN6_HAS_SCOPEID cfg then 0
        else if family a \<noteq> SOCKET_FAMILY_INET6 then 0
        else scope_id a)"

text \<open>The setters return the structure behind the pointer after the call.\<close>

definition socket_address_set_flow_info ::
    "build_config \<Rightarrow> SocketAddress option \<Rightarrow> uint32_t \<Rightarrow> SocketAddress option" where
  "socket_address_set_flow_info cfg address v =
    (case address of
       None \<Rightarrow> None
     | Some a \<Rightarrow>
        if \<not> PLIBSYS_SOCKADDR_IN6_HAS_FLOWINFO cfg then Some a
        else if family a \<noteq> SOCKET_FAMILY_INET6 then Some a
        else Some (a\<lparr>flowinfo := v\<rparr>))"

definition socket_address_set_scope_id ::
    "build_config \<Rightarrow> SocketAddress option \<Rightarrow> uint32_t \<Rightarrow> SocketAddress option" where
  "socket_address_set_scope_id cfg address v =
    (case address of
       None \<Rightarrow> None
     | Some a \<Rightarrow>
        if \<not> PLIBSYS_SOCKADDR_IN6_HAS_SCOPEID cfg then Some a
        else if family a \<noteq> SOCKET_FAMILY_INET6 then Some a
        else Some (a\<lparr>scope_id := v\<rparr>))"

definition shipped_build :: build_config where
  "shipped_build =
    \<lparr>PLIBSYS_SOCKADDR_IN6_HAS_FLOWINFO = False, PLIBSYS_SOCKADDR_IN6_HAS_SCOPEID = False\<rparr>"

text \<open>The three capability queries test \<^verbatim>\<open>AF_INET6\<close> only, which is defined; they do not
  look at the two macros above.\<close>

definition socket_address_is_flow_info_supported :: bool where
  "socket_address_is_flow_info_supported = True"

definition socket_address_is_scope_id_supported :: bool where
  "socket_address_is_scope_id_supported = True"

definition socket_address_is_ipv6_supported :: bool where
  "socket_address_is_ipv6_supported = True"

text \<open>\<^verbatim>\<open>INADDR_ANY\<close> and the two \<^verbatim>\<open><netinet/in.h>\<close> tests on the 16 bytes of an IPv6
  address.\<close>

definition INADDR_ANY :: uint32_t where "INADDR_ANY = 0"

definition IN6_IS_ADDR_UNSPECIFIED :: "byte list \<Rightarrow> bool" where
  "IN6_IS_ADDR_UNSPECIFIED a = (take 16 a = replicate 16 0)"

definition IN6_IS_ADDR_LOOPBACK :: "byte list \<Rightarrow> bool" where
  "IN6_IS_ADDR_LOOPBACK a = (take 16 a = replicate 15 0 @ [1])"

definition socket_address_is_any :: "SocketAddress option \<Rightarrow> bool" where
  "socket_address_is_any address =
    (case address of
       None \<Rightarrow> False
     | Some a \<Rightarrow>
        if family a = SOCKET_FAMILY_UNKNOWN then False
        else if family a = SOCKET_FAMILY_INET then
          (let addr4 = ntohl (load32 (addr a)) in addr4 = INADDR_ANY)
        else IN6_IS_ADDR_UNSPECIFIED (addr a))"

definition socket_address_is_loopback :: "SocketAddress option \<Rightarrow> bool" where
  "socket_address_is_loopback address =
    (case address of
       None \<Rightarrow> False
     | Some a \<Rightarrow>
        if family a = SOCKET_FAMILY_UNKNOWN then False
        else if family a = SOCKET_FAMILY_INET then
          (let addr4 = ntohl (load32 (addr a)) in addr4 AND 0xff000000 = 0x7f000000)
        else IN6_IS_ADDR_LOOPBACK (addr a))"

text \<open>What every constructor establishes and the setters keep: the family is IPv4 or
  IPv6, the union holds 16 bytes, and an IPv4 value has the rest of the zero-filled
  allocation untouched (the 12 bytes after the address, flow-info and scope-id).\<close>

definition constructed :: "SocketAddress \<Rightarrow> bool" where
  "constructed a =
    (length (addr a) = 16 \<and>
     (family a = SOCKET_FAMILY_INET6 \<or>
      family a = SOCKET_FAMILY_INET \<and> drop 4 (addr a) = replicate 12 0 \<and>
        flowinfo a = 0 \<and> scope_id a = 0))"

text \<open>A C library whose parsers write addresses of the right size.\<close>

definition libc_sizes_ok :: "libc \<Rightarrow> bool" where
  "libc_sizes_ok L =
    ((\<forall>t bs. inet_pton L AF_INET t = Some bs \<longrightarrow> length bs = 4) \<and>
     (\<forall>t bs. inet_pton L AF_INET6 t = Some bs \<longrightarrow> length bs = 16) \<and>
     (\<forall>t res. getaddrinfo_numeric L t = Some res \<longrightarrow> ai_addrlen res \<le> length (ai_addr res)))"

text \<open>The native buffers the round trip is stated for: \<open>len\<close> bytes are readable at
  \<open>b\<close>, the family tag is one of the two known ones and \<open>len\<close> covers that family's
  structure; \<open>native_struct_size\<close> is the size of the structure the tag announces.\<close>

definition native_struct_size :: "byte list \<Rightarrow> nat" where
  "native_struct_size b =
    (if load16 b = AF_INET then sizeof_sockaddr_in
     else if load16 b = AF_INET6 then sizeof_sockaddr_in6
     else 0)"

definition well_formed_native :: "byte list \<Rightarrow> nat \<Rightarrow> bool" where
  "well_formed_native b len =
    (len \<le> length b \<and> (load16 b = AF_INET \<or> load16 b = AF_INET6) \<and>
     native_struct_size b \<le> len)"

text \<open>The padding of a \<^verbatim>\<open>struct sockaddr_in\<close> (\<^verbatim>\<open>sin_zero\<close>, bytes 8 to 15) is zero.\<close>

definition sin_zero_clear :: "byte list \<Rightarrow> bool" where
  "sin_zero_clear b = (if load16 b = AF_INET then take 8 (drop 8 b) = replicate 8 0 else True)"

subsection \<open>The operating system and the global error state\<close>

text \<open>
  Socket operations act on a world: the global \<^verbatim>\<open>CURRENT_ERROR\<close> of error.c, the
  thread's \<^verbatim>\<open>errno\<close>, the list of calls made to the operating system and the C runtime so
  far (oldest first), and the system's behaviour \<open>os\<close>, which gives the reply to the
  \<open>n\<close>-th call. \<open>stack\<close> is the content an uninitialised
  \<^verbatim>\<open>struct sockaddr_storage\<close> local happens to have. The diagnostics printed by
  \<^verbatim>\<open>ALERT_WARNING\<close> and \<^verbatim>\<open>ALERT_ERROR\<close> are not part of the world, and the
  \<^verbatim>\<open>strdup\<close> of an error message is taken to succeed. Several calls in socket.c pass
  \<^verbatim>\<open>error_set_error\<close> a leading \<^verbatim>\<open>error\<close> argument that its declaration does not have;
  the model gives it the three declared ones: code, native code and message.
\<close>

datatype sockopt =
  SO_TYPE | SO_DOMAIN | SO_KEEPALIVE | SO_ERROR | SO_REUSEADDR | SO_REUSEPORT | SO_RCVBUF | SO_SNDBUF

datatype poll_events = POLLIN | POLLOUT

datatype os_call =
    SYS_calloc
  | SYS_free
  | SYS_getsockopt int32_t sockopt
  | SYS_setsockopt int32_t sockopt int32_t
  | SYS_getsockname int32_t
  | SYS_getpeername int32_t
  | SYS_ioctl_FIONBIO int32_t int32_t
  | SYS_fcntl_GETFD int32_t
  | SYS_fcntl_SETFD int32_t int32_t
  | SYS_bind int32_t "byte list" nat
  | SYS_connect int32_t "byte list" nat
  | SYS_listen int32_t int32_t
  | SYS_accept int32_t
  | SYS_recv int32_t uint32_t int32_t
  | SYS_recvfrom int32_t uint32_t int32_t
  | SYS_send int32_t "byte list" uint32_t int32_t
  | SYS_sendto int32_t "byte list" uint32_t int32_t "byte list" uint32_t
  | SYS_shutdown int32_t int32_t
  | SYS_close int32_t
  | SYS_poll int32_t poll_events int32_t
  | SYS_select int32_t "int32_t option" "int32_t option" "(int32_t \<times> int32_t) option"

text \<open>A reply is a return value together with the bytes the call wrote through its
  output pointers (the data or option value, and for \<^verbatim>\<open>recvfrom\<close> also the source
  address), or a failure: return value \<open>-1\<close> and \<^verbatim>\<open>errno\<close> set. \<^verbatim>\<open>calloc\<close> returns
  memory when its reply has a positive return value and \<^verbatim>\<open>NULL\<close> otherwise.\<close>

datatype os_reply = Ok int "byte list" "byte list" | Fail int32_t

fun ret_val :: "os_reply \<Rightarrow> int" where
  "ret_val (Ok n _ _) = n"
| "ret_val (Fail _) = - 1"

fun out_bytes :: "os_reply \<Rightarrow> byte list" where
  "out_bytes (Ok _ bs _) = bs"
| "out_bytes (Fail _) = []"

fun out_addr :: "os_reply \<Rightarrow> byte list" where
  "out_addr (Ok _ _ bs) = bs"
| "out_addr (Fail _) = []"

record error_state =
  code :: int32_t
  native_code :: int32_t
  message :: "string option"

record world =
  CURRENT_ERROR :: error_state
  errno :: int32_t
  calls :: "os_call list"
  os :: "nat \<Rightarrow> os_reply"
  stack :: "byte list"

definition os_syscall :: "os_call \<Rightarrow> world \<Rightarrow> os_reply \<times> world" where
  "os_syscall c w =
    (let r = os w (length (calls w))
     in (r, w\<lparr>calls := calls w @ [c],
               errno := (case r of Fail e \<Rightarrow> e | Ok _ _ _ \<Rightarrow> errno w)\<rparr>))"

text \<open>An output of \<open>n\<close> bytes written over a local object: the bytes behind them keep
  what the object held before.\<close>

definition write_out :: "byte list \<Rightarrow> byte list \<Rightarrow> byte list" where
  "write_out obj out = out @ drop (length out) obj"

text \<open>error.c on the world. \<^verbatim>\<open>error_get_last_system\<close> reads \<^verbatim>\<open>errno\<close> (the VMS detour
  does not exist on Linux), and so does \<^verbatim>\<open>error_get_last_net\<close>.\<close>

definition error_set_error :: "int32_t \<Rightarrow> int32_t \<Rightarrow> string \<Rightarrow> world \<Rightarrow> world" where
  "error_set_error c n m w =
     w\<lparr>CURRENT_ERROR := \<lparr>code = c, native_code = n, message = Some m\<rparr>\<rparr>"

definition error_get_code :: "world \<Rightarrow> int32_t" where
  "error_get_code w = code (CURRENT_ERROR w)"

definition error_get_native_code :: "world \<Rightarrow> int32_t" where
  "error_get_native_code w = native_code (CURRENT_ERROR w)"

definition error_get_message :: "world \<Rightarrow> string option" where
  "error_get_message w = message (CURRENT_ERROR w)"

definition error_get_last_system :: "world \<Rightarrow> int32_t" where
  "error_get_last_system w = errno w"

definition error_get_last_net :: "world \<Rightarrow> int32_t" where
  "error_get_last_net w = error_get_last_system w"

definition error_get_last_io :: "world \<Rightarrow> ErrorIO" where
  "error_get_last_io w = error_get_io_from_system (error_get_last_system w)"

text \<open>The recurring \<^verbatim>\<open>error_set_error (error_get_io_from_system (error_get_last_net ()),
  error_get_last_net (), msg)\<close>.\<close>

definition set_error_from_net :: "string \<Rightarrow> world \<Rightarrow> world" where
  "set_error_from_net m w =
     error_set_error (ErrorIO_value (error_get_io_from_system (error_get_last_net w)))
       (error_get_last_net w) m w"

text \<open>util.c, \<^verbatim>\<open>sys_close\<close>: on Linux a single \<^verbatim>\<open>close\<close>.\<close>

definition sys_close :: "int32_t \<Rightarrow> world \<Rightarrow> int \<times> world" where
  "sys_close f w = (let (r, w1) = os_syscall (SYS_close f) w in (ret_val r, w1))"

text \<open>\<^verbatim>\<open>socket_address_free\<close>.\<close>

definition socket_address_free :: "SocketAddress option \<Rightarrow> world \<Rightarrow> world" where
  "socket_address_free address w =
    (case address of
       None \<Rightarrow> w
     | Some a \<Rightarrow> snd (os_syscall SYS_free w))"

text \<open>\<^verbatim>\<open>socket_address_new_from_native\<close> as socket.c calls it, with its calls to the
  allocator in the world, in the order of the source: the tests of \<^verbatim>\<open>native\<close> and
  \<^verbatim>\<open>len\<close> come before \<^verbatim>\<open>calloc\<close>, and every branch that gives up after the allocation
  (a length too short for the family, an unknown family) calls \<^verbatim>\<open>free\<close>. With memory
  at hand these are exactly the cases in which the function above returns \<^verbatim>\<open>NULL\<close>.\<close>

definition socket_address_new_from_native_w ::
    "byte list option \<Rightarrow> nat \<Rightarrow> world \<Rightarrow> SocketAddress option \<times> world" where
  "socket_address_new_from_native_w native len w =
    (if native = None \<or> len = 0 then (None, w)
     else
       let (m, w1) = os_syscall SYS_calloc w in
       if ret_val m \<le> 0 then (None, w1)
       else (case socket_address_new_from_native True native len of
               None \<Rightarrow> (None, snd (os_syscall SYS_free w1))
             | Some a \<Rightarrow> (Some a, w1)))"

subsection \<open>socket.c: the socket handle\<close>

datatype SocketProtocol =
    SOCKET_PROTOCOL_UNKNOWN
  | SOCKET_PROTOCOL_DEFAULT
  | SOCKET_PROTOCOL_TCP
  | SOCKET_PROTOCOL_UDP
  | SOCKET_PROTOCOL_SCTP

datatype SocketType =
    SOCKET_TYPE_UNKNOWN
  | SOCKET_TYPE_STREAM
  | SOCKET_TYPE_DATAGRAM
  | SOCKET_TYPE_SEQPACKET

datatype SocketDirection = SOCKET_DIRECTION_SND | SOCKET_DIRECTION_RCV

datatype SocketIOCondition = SOCKET_IO_CONDITION_POLLIN | SOCKET_IO_CONDITION_POLLOUT

text \<open>\<^verbatim>\<open>struct Socket\<close>; the field \<^verbatim>\<open>family\<close> is \<open>socket_family\<close> here, \<^verbatim>\<open>type\<close> is
  \<open>socket_type\<close>.\<close>

record Socket =
  socket_family :: SocketFamily
  protocol :: SocketProtocol
  socket_type :: SocketType
  fd :: int32_t
  listen_backlog :: int32_t
  timeout :: int32_t
  blocking :: bool
  keepalive :: bool
  closed :: bool
  connected :: bool
  listening :: bool

text \<open>The readiness-wait back end the build selects.\<close>

datatype wait_backend = SOCKET_USE_POLL | SOCKET_USE_SELECT

definition SOCKET_DEFAULT_BACKLOG :: int32_t where "SOCKET_DEFAULT_BACKLOG = 5"
definition SHUT_RD :: int32_t where "SHUT_RD = 0"
definition SHUT_WR :: int32_t where "SHUT_WR = 1"
definition SHUT_RDWR :: int32_t where "SHUT_RDWR = 2"
definition MSG_NOSIGNAL :: int32_t where "MSG_NOSIGNAL = 0x4000"
definition SOCKET_DEFAULT_SEND_FLAGS :: int32_t where "SOCKET_DEFAULT_SEND_FLAGS = MSG_NOSIGNAL"
definition FD_CLOEXEC :: int32_t where "FD_CLOEXEC = 1"
definition SOCK_STREAM :: int32_t where "SOCK_STREAM = 1"
definition SOCK_DGRAM :: int32_t where "SOCK_DGRAM = 2"
definition SOCK_SEQPACKET :: int32_t where "SOCK_SEQPACKET = 5"
definition sizeof_sockaddr_storage :: nat where "sizeof_sockaddr_storage = 128"

text \<open>\<^verbatim>\<open>calloc (sizeof (Socket), 1)\<close>: every field zero; the enumerator with value 0 of
  \<^verbatim>\<open>SocketProtocol\<close> is \<^verbatim>\<open>SOCKET_PROTOCOL_DEFAULT\<close>.\<close>

definition zeroed_Socket :: Socket where
  "zeroed_Socket =
    \<lparr>socket_family = SOCKET_FAMILY_UNKNOWN, protocol = SOCKET_PROTOCOL_DEFAULT,
     socket_type = SOCKET_TYPE_UNKNOWN, fd = 0, listen_backlog = 0, timeout = 0,
     blocking = False, keepalive = False, closed = False, connected = False,
     listening = False\<rparr>"

definition XX_socket_set_fd_blocking :: "int32_t \<Rightarrow> bool \<Rightarrow> world \<Rightarrow> bool \<times> world" where
  "XX_socket_set_fd_blocking f blk w =
    (let arg = (if blk then 0 else 1);
         (r, w1) = os_syscall (SYS_ioctl_FIONBIO f arg) w
     in if ret_val r < 0
        then (False, set_error_from_net ''Failed to set socket blocking flags'' w1)
        else (True, w1))"

definition XX_socket_check :: "Socket \<Rightarrow> world \<Rightarrow> bool \<times> world" where
  "XX_socket_check s w =
    (if closed s
     then (False, error_set_error (ErrorIO_value ERROR_IO_NOT_AVAILABLE) 0
                    ''Socket is already closed'' w)
     else (True, w))"

text \<open>\<^verbatim>\<open>_XX__socket_set_details_from_fd\<close> returns its \<^verbatim>\<open>bool\<close>, the structure behind
  the pointer and the world.\<close>

definition XX_socket_set_details_from_fd :: "Socket \<Rightarrow> world \<Rightarrow> bool \<times> Socket \<times> world" where
  "XX_socket_set_details_from_fd s w =
    (let (r1, w1) = os_syscall (SYS_getsockopt (fd s) SO_TYPE) w in
     if ret_val r1 \<noteq> 0 then
       (False, s, set_error_from_net
          ''Failed to call getsockopt() to get socket info for fd'' w1)
     else if length (out_bytes r1) \<noteq> 4 then
       (False, s, error_set_error (ErrorIO_value ERROR_IO_INVALID_ARGUMENT) 0
          ''Failed to get socket info for fd, bad option length'' w1)
     else
       let val = load32 (out_bytes r1);
           s1 = s\<lparr>socket_type :=
                  (if val = SOCK_STREAM then SOCKET_TYPE_STREAM
                   else if val = SOCK_DGRAM then SOCKET_TYPE_DATAGRAM
                   else if val = SOCK_SEQPACKET then SOCKET_TYPE_SEQPACKET
                   else SOCKET_TYPE_UNKNOWN)\<rparr>;
           (r2, w2) = os_syscall (SYS_getsockname (fd s)) w1
       in
       if ret_val r2 \<noteq> 0 then
         (False, s1, set_error_from_net
            ''Failed to call getsockname() to get socket address info'' w2)
       else
         let address = write_out (stack w) (out_bytes r2);
             addrlen = length (out_bytes r2);
             (r3, w3) = (if \<not> 0 < addrlen
                         then os_syscall (SYS_getsockopt (fd s) SO_DOMAIN) w2
                         else (Ok 0 [] [], w2))
         in
         if ret_val r3 \<noteq> 0 then
           (False, s1, set_error_from_net
              ''Failed to call getsockopt() to get socket SO_DOMAIN option'' w3)
         else
           let ss_family = load16 address;
               s2 = s1\<lparr>socket_family :=
                      (if ss_family = AF_INET then SOCKET_FAMILY_INET
                       else if ss_family = AF_INET6 then SOCKET_FAMILY_INET6
                       else SOCKET_FAMILY_UNKNOWN)\<rparr>;
               s3 = (if socket_family s2 = SOCKET_FAMILY_INET6 \<or>
                        socket_family s2 = SOCKET_FAMILY_INET
                     then (case socket_type s2 of
                             SOCKET_TYPE_STREAM \<Rightarrow> s2\<lparr>protocol := SOCKET_PROTOCOL_TCP\<rparr>
                           | SOCKET_TYPE_DATAGRAM \<Rightarrow> s2\<lparr>protocol := SOCKET_PROTOCOL_UDP\<rparr>
                           | SOCKET_TYPE_SEQPACKET \<Rightarrow> s2\<lparr>protocol := SOCKET_PROTOCOL_SCTP\<rparr>
                           | SOCKET_TYPE_UNKNOWN \<Rightarrow> s2)
                     else s2);
               (s4, w4) = (if socket_family s3 \<noteq> SOCKET_FAMILY_UNKNOWN
                           then (let (r4, w') = os_syscall (SYS_getpeername (fd s)) w3
                                 in (if 0 \<le> ret_val r4 then s3\<lparr>connected := True\<rparr> else s3, w'))
                           else (s3, w3));
               (r5, w5) = os_syscall (SYS_getsockopt (fd s) SO_KEEPALIVE) w4;
               bool_val = load32 (write_out (take 4 (stack w)) (out_bytes r5))
           in
           if ret_val r5 = 0 then (True, s4\<lparr>keepalive := (bool_val \<noteq> 0)\<rparr>, w5)
           else (True, s4\<lparr>keepalive := False\<rparr>, w5))"

definition socket_set_listen_backlog :: "Socket option \<Rightarrow> int32_t \<Rightarrow> Socket option" where
  "socket_set_listen_backlog sock backlog =
    (case sock of
       None \<Rightarrow> None
     | Some s \<Rightarrow> if listening s then Some s else Some (s\<lparr>listen_backlog := backlog\<rparr>))"

definition socket_set_blocking :: "Socket option \<Rightarrow> bool \<Rightarrow> Socket option" where
  "socket_set_blocking sock blk =
    (case sock of None \<Rightarrow> None | Some s \<Rightarrow> Some (s\<lparr>blocking := blk\<rparr>))"

definition socket_set_timeout :: "Socket option \<Rightarrow> int32_t \<Rightarrow> Socket option" where
  "socket_set_timeout sock t =
    (case sock of
       None \<Rightarrow> None
     | Some s \<Rightarrow> Some (s\<lparr>timeout := (if sint t < 0 then 0 else t)\<rparr>))"

text \<open>\<^verbatim>\<open>socket_new_from_fd\<close>; \<open>None\<close> is the \<^verbatim>\<open>NULL\<close> it returns on failure.\<close>

definition socket_new_from_fd :: "int32_t \<Rightarrow> world \<Rightarrow> Socket option \<times> world" where
  "socket_new_from_fd f w =
    (if sint f < 0 then
       (None, error_set_error (ErrorIO_value ERROR_IO_INVALID_ARGUMENT) 0
          ''Unable to create socket from bad fd'' w)
     else
       let (m, w1) = os_syscall SYS_calloc w in
       if ret_val m \<le> 0 then
         (None, error_set_error (ErrorIO_value ERROR_IO_NO_RESOURCES) 0
            ''Failed to allocate memory for socket'' w1)
       else
         let ret = zeroed_Socket\<lparr>fd := f\<rparr>;
             (ok1, ret1, w2) = XX_socket_set_details_from_fd ret w1
         in
         if \<not> ok1 then (None, snd (os_syscall SYS_free w2))
         else
           let (ok2, w3) = XX_socket_set_fd_blocking (fd ret1) False w2 in
           if \<not> ok2 then (None, snd (os_syscall SYS_free w3))
           else
             (case socket_set_listen_backlog (Some ret1) SOCKET_DEFAULT_BACKLOG of
                None \<Rightarrow> (None, w3)
              | Some ret2 \<Rightarrow> (Some (ret2\<lparr>timeout := 0, blocking := True\<rparr>), w3)))"

definition socket_get_fd :: "Socket option \<Rightarrow> int32_t" where
  "socket_get_fd sock = (case sock of None \<Rightarrow> - 1 | Some s \<Rightarrow> fd s)"

definition socket_get_family :: "Socket option \<Rightarrow> SocketFamily" where
  "socket_get_family sock =
    (case sock of None \<Rightarrow> SOCKET_FAMILY_UNKNOWN | Some s \<Rightarrow> socket_family s)"

definition socket_get_timeout :: "Socket option \<Rightarrow> int32_t" where
  "socket_get_timeout sock = (case sock of None \<Rightarrow> - 1 | Some s \<Rightarrow> timeout s)"

definition socket_get_blocking :: "Socket option \<Rightarrow> bool" where
  "socket_get_blocking sock = (case sock of None \<Rightarrow> False | Some s \<Rightarrow> blocking s)"

definition socket_is_connected :: "Socket option \<Rightarrow> bool" where
  "socket_is_connected sock = (case sock of None \<Rightarrow> False | Some s \<Rightarrow> connected s)"

definition socket_is_closed :: "Socket option \<Rightarrow> bool" where
  "socket_is_closed sock = (case sock of None \<Rightarrow> True | Some s \<Rightarrow> closed s)"

text \<open>\<^verbatim>\<open>socket_check_connect_result\<close>.\<close>

definition socket_check_connect_result ::
    "Socket option \<Rightarrow> world \<Rightarrow> bool \<times> Socket option \<times> world" where
  "socket_check_connect_result sock w =
    (case sock of
       None \<Rightarrow>
         (False, None, error_set_error (ErrorIO_value ERROR_IO_INVALID_ARGUMENT) 0
            ''Invalid input argument'' w)
     | Some s \<Rightarrow>
         let (r, w1) = os_syscall (SYS_getsockopt (fd s) SO_ERROR) w in
         if ret_val r < 0 then
           (False, Some s, set_error_from_net
              ''Failed to call getsockopt() to get connection status'' w1)
         else
           let val = load32 (write_out (take 4 (stack w)) (out_bytes r));
               w2 = (if val \<noteq> 0
                     then error_set_error (ErrorIO_value (error_get_io_from_system val)) val
                            ''Error in socket layer'' w1
                     else w1)
           in (val = 0, Some (s\<lparr>connected := (val = 0)\<rparr>), w2))"

text \<open>
  The loops of socket.c retry for as long as the system keeps interrupting them, so they
  take fuel: the number of iterations they may still make. \<open>None\<close> means the fuel ran out
  before the loop returned.

  \<^verbatim>\<open>socket_io_condition_wait\<close>, the \<^verbatim>\<open>poll\<close> back end: the loop around \<^verbatim>\<open>poll\<close>.
\<close>

fun poll_loop :: "nat \<Rightarrow> int32_t \<Rightarrow> poll_events \<Rightarrow> int32_t \<Rightarrow> world \<Rightarrow> (bool \<times> world) option" where
  "poll_loop 0 f ev t w = None"
| "poll_loop (Suc n) f ev t w =
    (let (r, w1) = os_syscall (SYS_poll f ev t) w;
         evret = ret_val r
     in if evret = - 1 \<and> error_get_last_net w1 = EINTR then poll_loop n f ev t w1
        else if evret = 1 then Some (True, w1)
        else if evret = 0 then
          Some (False, error_set_error (ErrorIO_value ERROR_IO_TIMED_OUT)
                         (error_get_last_net w1)
                         ''Timed out while waiting socket condition'' w1)
        else Some (False, set_error_from_net ''Failed to call poll() on socket'' w1))"

text \<open>The \<^verbatim>\<open>select\<close> back end. \<^verbatim>\<open>ptv\<close> is \<^verbatim>\<open>NULL\<close> unless the timeout is positive;
  then the division and remainder are those of positive numbers.\<close>

fun select_loop :: "nat \<Rightarrow> Socket \<Rightarrow> SocketIOCondition \<Rightarrow> world \<Rightarrow> (bool \<times> world) option" where
  "select_loop 0 s cond w = None"
| "select_loop (Suc n) s cond w =
    (let ptv = (if 0 < sint (timeout s)
                then Some (timeout s div 1000, (timeout s mod 1000) * 1000)
                else None);
         (r, w1) = (if cond = SOCKET_IO_CONDITION_POLLIN
                    then os_syscall (SYS_select (fd s + 1) (Some (fd s)) None ptv) w
                    else os_syscall (SYS_select (fd s + 1) None (Some (fd s)) ptv) w);
         evret = ret_val r
     in if evret = - 1 \<and> error_get_last_net w1 = EINTR then select_loop n s cond w1
        else if evret = 1 then Some (True, w1)
        else if evret = 0 then
          Some (False, error_set_error (ErrorIO_value ERROR_IO_TIMED_OUT)
                         (error_get_last_net w1)
                         ''Timed out while waiting socket condition'' w1)
        else Some (False, set_error_from_net ''Failed to call select() on socket'' w1))"

definition socket_io_condition_wait ::
    "wait_backend \<Rightarrow> nat \<Rightarrow> Socket option \<Rightarrow> SocketIOCondition \<Rightarrow> world \<Rightarrow> (bool \<times> world) option" where
  "socket_io_condition_wait B fuel sock cond w =
    (case sock of
       None \<Rightarrow>
         Some (False, error_set_error (ErrorIO_value ERROR_IO_INVALID_ARGUMENT) 0
                        ''Invalid input argument'' w)
     | Some s \<Rightarrow>
         let (ok, w1) = XX_socket_check s w in
         if \<not> ok then Some (False, w1)
         else (case B of
             SOCKET_USE_POLL \<Rightarrow>
               let t = (if 0 < sint (timeout s) then timeout s else - 1);
                   ev = (if cond = SOCKET_IO_CONDITION_POLLIN then POLLIN else POLLOUT)
               in poll_loop fuel (fd s) ev t w1
           | SOCKET_USE_SELECT \<Rightarrow> select_loop fuel s cond w1))"

text \<open>\<^verbatim>\<open>socket_bind\<close>. The local \<^verbatim>\<open>struct sockaddr_storage addr\<close> is not initialised.\<close>

definition socket_bind ::
    "Socket option \<Rightarrow> SocketAddress option \<Rightarrow> bool \<Rightarrow> world \<Rightarrow> bool \<times> world" where
  "socket_bind sock address allow_reuse w =
    (case sock of
       None \<Rightarrow> (False, error_set_error (ErrorIO_value ERROR_IO_INVALID_ARGUMENT) 0
                         ''Invalid input argument'' w)
     | Some s \<Rightarrow>
        if address = None then
          (False, error_set_error (ErrorIO_value ERROR_IO_INVALID_ARGUMENT) 0
                    ''Invalid input argument'' w)
        else
          let (ok, w1) = XX_socket_check s w in
          if \<not> ok then (False, w1)
          else
            let val = (if allow_reuse then 1 else 0);
                (r1, w2) = os_syscall (SYS_setsockopt (fd s) SO_REUSEADDR val) w1;
                reuse_port = (allow_reuse \<and> socket_type s = SOCKET_TYPE_DATAGRAM);
                val2 = (if reuse_port then 1 else 0);
                (r2, w3) = os_syscall (SYS_setsockopt (fd s) SO_REUSEPORT val2) w2;
                (conv, native) =
                   socket_address_to_native address (Some (stack w)) sizeof_sockaddr_storage
            in
            if \<not> conv then
              (False, error_set_error (ErrorIO_value ERROR_IO_FAILED) 0
                        ''Failed to convert socket address to native structure'' w3)
            else
              let (r3, w4) = os_syscall
                     (SYS_bind (fd s) (case native of None \<Rightarrow> [] | Some m \<Rightarrow> m)
                        (socket_address_get_native_size address)) w3
              in if ret_val r3 < 0
                 then (False, set_error_from_net ''Failed to call bind() on socket'' w4)
                 else (True, w4))"

text \<open>\<^verbatim>\<open>socket_connect\<close>: first the loop that repeats \<^verbatim>\<open>connect\<close> while it is interrupted.
  It returns the last \<^verbatim>\<open>conn_result\<close>; \<^verbatim>\<open>err_code\<close>, assigned from
  \<^verbatim>\<open>error_get_last_net ()\<close> right after the last \<^verbatim>\<open>connect\<close>, is read from the world the
  loop returns.\<close>

fun connect_loop :: "nat \<Rightarrow> int32_t \<Rightarrow> byte list \<Rightarrow> nat \<Rightarrow> world \<Rightarrow> (int \<times> world) option" where
  "connect_loop 0 f buf len w = None"
| "connect_loop (Suc n) f buf len w =
    (let (r, w1) = os_syscall (SYS_connect f buf len) w;
         conn_result = ret_val r
     in if conn_result = 0 then Some (conn_result, w1)
        else if error_get_last_net w1 = EINTR then connect_loop n f buf len w1
        else Some (conn_result, w1))"

definition socket_connect ::
    "wait_backend \<Rightarrow> nat \<Rightarrow> Socket option \<Rightarrow> SocketAddress option \<Rightarrow> world \<Rightarrow>
       (bool \<times> Socket option \<times> world) option" where
  "socket_connect B fuel sock address w =
    (case sock of
       None \<Rightarrow> Some (False, None, error_set_error (ErrorIO_value ERROR_IO_INVALID_ARGUMENT) 0
                                    ''Invalid input argument'' w)
     | Some s \<Rightarrow>
        if address = None then
          Some (False, sock, error_set_error (ErrorIO_value ERROR_IO_INVALID_ARGUMENT) 0
                               ''Invalid input argument'' w)
        else
          let (ok, w1) = XX_socket_check s w in
          if \<not> ok then Some (False, sock, w1)
          else
            let (conv, buffer) =
                   socket_address_to_native address (Some (stack w)) sizeof_sockaddr_storage
            in
            if \<not> conv then
              Some (False, sock, error_set_error (ErrorIO_value ERROR_IO_FAILED) 0
                      ''Failed to convert socket address to native structure'' w1)
            else
              (case connect_loop fuel (fd s) (case buffer of None \<Rightarrow> [] | Some m \<Rightarrow> m)
                      (socket_address_get_native_size address) w1 of
                 None \<Rightarrow> None
               | Some (conn_result, w2) \<Rightarrow>
                  if conn_result = 0 then Some (True, Some (s\<lparr>connected := True\<rparr>), w2)
                  else
                    let err_code = error_get_last_net w2;
                        sock_err = error_get_io_from_system err_code
                    in
                    if sock_err = ERROR_IO_WOULD_BLOCK \<or> sock_err = ERROR_IO_IN_PROGRESS then
                      if blocking s then
                        (case socket_io_condition_wait B fuel sock
                                SOCKET_IO_CONDITION_POLLOUT w2 of
                           None \<Rightarrow> None
                         | Some (ready, w3) \<Rightarrow>
                            if \<not> ready then Some (False, sock, w3)
                            else
                              let (res, sock', w4) = socket_check_connect_result sock w3 in
                              if res
                              then Some (True, map_option (\<lambda>s'. s'\<lparr>connected := True\<rparr>) sock', w4)
                              else Some (False, sock', w4))
                      else
                        Some (False, sock, error_set_error (ErrorIO_value sock_err) err_code
                                ''Couldn't block non-blocking socket'' w2)
                    else
                      Some (False, sock, error_set_error (ErrorIO_value sock_err) err_code
                              ''Failed to call connect() on socket'' w2)))"

definition socket_listen :: "Socket option \<Rightarrow> world \<Rightarrow> bool \<times> Socket option \<times> world" where
  "socket_listen sock w =
    (case sock of
       None \<Rightarrow> (False, None, error_set_error (ErrorIO_value ERROR_IO_INVALID_ARGUMENT) 0
                               ''Invalid input argument'' w)
     | Some s \<Rightarrow>
        let (ok, w1) = XX_socket_check s w in
        if \<not> ok then (False, sock, w1)
        else
          let (r, w2) = os_syscall (SYS_listen (fd s) (listen_backlog s)) w1 in
          if ret_val r < 0
          then (False, sock, set_error_from_net ''Failed to call listen() on socket'' w2)
          else (True, Some (s\<lparr>listening := True\<rparr>), w2))"

text \<open>The test that opens every iteration of the transfer loops:
  \<^verbatim>\<open>socket->blocking && socket_io_condition_wait (socket, cond) == false\<close>. The wait is
  only called on a blocking socket. The result is \<open>True\<close> when the iteration goes on.\<close>

definition wait_if_blocking ::
    "wait_backend \<Rightarrow> nat \<Rightarrow> Socket \<Rightarrow> SocketIOCondition \<Rightarrow> world \<Rightarrow> (bool \<times> world) option" where
  "wait_if_blocking B fuel s cond w =
    (if blocking s then socket_io_condition_wait B fuel (Some s) cond w
     else Some (True, w))"

text \<open>\<^verbatim>\<open>socket_accept\<close>: the loop returns the accepted descriptor, or \<open>None\<close> where the
  source returns \<^verbatim>\<open>NULL\<close> from inside the loop.\<close>

fun accept_loop ::
    "wait_backend \<Rightarrow> nat \<Rightarrow> Socket \<Rightarrow> world \<Rightarrow> (int32_t option \<times> world) option" where
  "accept_loop B 0 s w = None"
| "accept_loop B (Suc n) s w =
    (case wait_if_blocking B (Suc n) s SOCKET_IO_CONDITION_POLLIN w of
       None \<Rightarrow> None
     | Some (go, w1) \<Rightarrow>
        if \<not> go then Some (None, w1)
        else
          let (r, w2) = os_syscall (SYS_accept (fd s)) w1;
              res = (word_of_int (ret_val r) :: int32_t)
          in
          if sint res < 0 then
            let err_code = error_get_last_net w2 in
            if error_get_last_net w2 = EINTR then accept_loop B n s w2
            else
              let sock_err = error_get_io_from_system err_code in
              if blocking s \<and> sock_err = ERROR_IO_WOULD_BLOCK then accept_loop B n s w2
              else Some (None, error_set_error (ErrorIO_value sock_err) err_code
                                 ''Failed to call accept() on socket'' w2)
          else Some (Some res, w2))"

definition socket_accept ::
    "wait_backend \<Rightarrow> nat \<Rightarrow> Socket option \<Rightarrow> world \<Rightarrow> (Socket option \<times> world) option" where
  "socket_accept B fuel sock w =
    (case sock of
       None \<Rightarrow> Some (None, error_set_error (ErrorIO_value ERROR_IO_INVALID_ARGUMENT) 0
                             ''Invalid input argument'' w)
     | Some s \<Rightarrow>
        let (ok, w1) = XX_socket_check s w in
        if \<not> ok then Some (None, w1)
        else
          (case accept_loop B fuel s w1 of
             None \<Rightarrow> None
           | Some (None, w2) \<Rightarrow> Some (None, w2)
           | Some (Some res, w2) \<Rightarrow>
              let (r1, w3) = os_syscall (SYS_fcntl_GETFD res) w2;
                  flags = (word_of_int (ret_val r1) :: int32_t);
                  w4 = (if flags \<noteq> - 1 \<and> flags AND FD_CLOEXEC = 0
                        then snd (os_syscall (SYS_fcntl_SETFD res (flags OR FD_CLOEXEC)) w3)
                        else w3);
                  (ret, w5) = socket_new_from_fd res w4
              in
              (case ret of
                 None \<Rightarrow> Some (None, snd (sys_close res w5))
               | Some child \<Rightarrow> Some (Some (child\<lparr>protocol := protocol s\<rparr>), w5))))"

text \<open>\<^verbatim>\<open>socket_receive\<close> returns its \<^verbatim>\<open>ssize_t\<close>, the memory at \<open>buffer\<close> after the call
  and the world. \<^verbatim>\<open>(socklen_t) buflen\<close> is the truncation to 32 bits.\<close>

fun receive_loop ::
    "wait_backend \<Rightarrow> nat \<Rightarrow> Socket \<Rightarrow> byte list \<Rightarrow> nat \<Rightarrow> world \<Rightarrow>
       (int \<times> byte list \<times> world) option" where
  "receive_loop B 0 s buf buflen w = None"
| "receive_loop B (Suc n) s buf buflen w =
    (case wait_if_blocking B (Suc n) s SOCKET_IO_CONDITION_POLLIN w of
       None \<Rightarrow> None
     | Some (go, w1) \<Rightarrow>
        if \<not> go then Some (- 1, buf, w1)
        else
          let (r, w2) = os_syscall (SYS_recv (fd s) (of_nat buflen) 0) w1;
              ret = ret_val r
          in
          if ret < 0 then
            let err_code = error_get_last_net w2 in
            if err_code = EINTR then receive_loop B n s buf buflen w2
            else
              let sock_err = error_get_io_from_system err_code in
              if blocking s \<and> sock_err = ERROR_IO_WOULD_BLOCK
              then receive_loop B n s buf buflen w2
              else Some (- 1, buf, error_set_error (ErrorIO_value sock_err) err_code
                                     ''Failed to call recv() on socket'' w2)
          else Some (ret, memcpy buf 0 (out_bytes r) (nat ret), w2))"

definition socket_receive ::
    "wait_backend \<Rightarrow> nat \<Rightarrow> Socket option \<Rightarrow> byte list option \<Rightarrow> nat \<Rightarrow> world \<Rightarrow>
       (int \<times> byte list option \<times> world) option" where
  "socket_receive B fuel sock buffer buflen w =
    (case sock of
       None \<Rightarrow> Some (- 1, buffer, error_set_error (ErrorIO_value ERROR_IO_INVALID_ARGUMENT) 0
                                    ''Invalid input argument'' w)
     | Some s \<Rightarrow>
        (case buffer of
           None \<Rightarrow> Some (- 1, buffer, error_set_error (ErrorIO_value ERROR_IO_INVALID_ARGUMENT) 0
                                        ''Invalid input argument'' w)
         | Some buf \<Rightarrow>
            let (ok, w1) = XX_socket_check s w in
            if \<not> ok then Some (- 1, buffer, w1)
            else map_option (\<lambda>(ret, buf', w'). (ret, Some buf', w'))
                   (receive_loop B fuel s buf buflen w1)))"

text \<open>\<^verbatim>\<open>socket_receive_from\<close>: \<open>want_address\<close> says that the \<^verbatim>\<open>address\<close> argument is not
  \<^verbatim>\<open>NULL\<close>; the loop also returns the source address the system wrote, whose length is
  the \<^verbatim>\<open>optlen\<close> that \<^verbatim>\<open>recvfrom\<close> leaves.\<close>

fun receive_from_loop ::
    "wait_backend \<Rightarrow> nat \<Rightarrow> Socket \<Rightarrow> byte list \<Rightarrow> nat \<Rightarrow> world \<Rightarrow>
       (int \<times> byte list \<times> byte list \<times> world) option" where
  "receive_from_loop B 0 s buf buflen w = None"
| "receive_from_loop B (Suc n) s buf buflen w =
    (case wait_if_blocking B (Suc n) s SOCKET_IO_CONDITION_POLLIN w of
       None \<Rightarrow> None
     | Some (go, w1) \<Rightarrow>
        if \<not> go then Some (- 1, buf, [], w1)
        else
          let (r, w2) = os_syscall (SYS_recvfrom (fd s) (of_nat buflen) 0) w1;
              ret = ret_val r
          in
          if ret < 0 then
            let err_code = error_get_last_net w2 in
            if err_code = EINTR then receive_from_loop B n s buf buflen w2
            else
              let sock_err = error_get_io_from_system err_code in
              if blocking s \<and> sock_err = ERROR_IO_WOULD_BLOCK
              then receive_from_loop B n s buf buflen w2
              else Some (- 1, buf, [], error_set_error (ErrorIO_value sock_err) err_code
                                         ''Failed to call recvfrom() on socket'' w2)
          else Some (ret, memcpy buf 0 (out_bytes r) (nat ret), out_addr r, w2))"

definition socket_receive_from ::
    "wait_backend \<Rightarrow> nat \<Rightarrow> Socket option \<Rightarrow> bool \<Rightarrow> byte list option \<Rightarrow> nat \<Rightarrow> world \<Rightarrow>
       (int \<times> SocketAddress option \<times> byte list option \<times> world) option" where
  "socket_receive_from B fuel sock want_address buffer buflen w =
    (case sock of
       None \<Rightarrow> Some (- 1, None, buffer,
                     error_set_error (ErrorIO_value ERROR_IO_INVALID_ARGUMENT) 0
                       ''Invalid input argument'' w)
     | Some s \<Rightarrow>
        (case buffer of
           None \<Rightarrow> Some (- 1, None, buffer,
                         error_set_error (ErrorIO_value ERROR_IO_INVALID_ARGUMENT) 0
                           ''Invalid input argument'' w)
         | Some buf \<Rightarrow>
            if buflen = 0 then
              Some (- 1, None, buffer,
                    error_set_error (ErrorIO_value ERROR_IO_INVALID_ARGUMENT) 0
                      ''Invalid input argument'' w)
            else
              let (ok, w1) = XX_socket_check s w in
              if \<not> ok then Some (- 1, None, buffer, w1)
              else
                (case receive_from_loop B fuel s buf buflen w1 of
                   None \<Rightarrow> None
                 | Some (ret, buf', sa_out, w2) \<Rightarrow>
                    if ret < 0 then Some (ret, None, Some buf', w2)
                    else if want_address then
                      let sa = write_out (stack w) sa_out;
                          (address, w3) =
                             socket_address_new_from_native_w (Some sa) (length sa_out) w2
                      in Some (ret, address, Some buf', w3)
                    else Some (ret, None, Some buf', w2))))"

text \<open>\<^verbatim>\<open>socket_send\<close> and \<^verbatim>\<open>socket_send_to\<close>.\<close>

fun send_loop ::
    "wait_backend \<Rightarrow> nat \<Rightarrow> Socket \<Rightarrow> byte list \<Rightarrow> nat \<Rightarrow> world \<Rightarrow> (int \<times> world) option" where
  "send_loop B 0 s buf buflen w = None"
| "send_loop B (Suc n) s buf buflen w =
    (case wait_if_blocking B (Suc n) s SOCKET_IO_CONDITION_POLLOUT w of
       None \<Rightarrow> None
     | Some (go, w1) \<Rightarrow>
        if \<not> go then Some (- 1, w1)
        else
          let (r, w2) = os_syscall
                 (SYS_send (fd s) buf (of_nat buflen) SOCKET_DEFAULT_SEND_FLAGS) w1;
              ret = ret_val r
          in
          if ret < 0 then
            let err_code = error_get_last_net w2 in
            if err_code = EINTR then send_loop B n s buf buflen w2
            else
              let sock_err = error_get_io_from_system err_code in
              if blocking s \<and> sock_err = ERROR_IO_WOULD_BLOCK
              then send_loop B n s buf buflen w2
              else Some (- 1, error_set_error (ErrorIO_value sock_err) err_code
                                ''Failed to call send() on socket'' w2)
          else Some (ret, w2))"

definition socket_send ::
    "wait_backend \<Rightarrow> nat \<Rightarrow> Socket option \<Rightarrow> byte list option \<Rightarrow> nat \<Rightarrow> world \<Rightarrow>
       (int \<times> world) option" where
  "socket_send B fuel sock buffer buflen w =
    (case sock of
       None \<Rightarrow> Some (- 1, error_set_error (ErrorIO_value ERROR_IO_INVALID_ARGUMENT) 0
                            ''Invalid input argument'' w)
     | Some s \<Rightarrow>
        (case buffer of
           None \<Rightarrow> Some (- 1, error_set_error (ErrorIO_value ERROR_IO_INVALID_ARGUMENT) 0
                                ''Invalid input argument'' w)
         | Some buf \<Rightarrow>
            if buflen = 0 then
              Some (- 1, error_set_error (ErrorIO_value ERROR_IO_INVALID_ARGUMENT) 0
                           ''Invalid input argument'' w)
            else
              let (ok, w1) = XX_socket_check s w in
              if \<not> ok then Some (- 1, w1)
              else send_loop B fuel s buf buflen w1))"

fun send_to_loop ::
    "wait_backend \<Rightarrow> nat \<Rightarrow> Socket \<Rightarrow> byte list \<Rightarrow> nat \<Rightarrow> byte list \<Rightarrow> uint32_t \<Rightarrow> world \<Rightarrow>
       (int \<times> world) option" where
  "send_to_loop B 0 s buf buflen sa optlen w = None"
| "send_to_loop B (Suc n) s buf buflen sa optlen w =
    (case wait_if_blocking B (Suc n) s SOCKET_IO_CONDITION_POLLOUT w of
       None \<Rightarrow> None
     | Some (go, w1) \<Rightarrow>
        if \<not> go then Some (- 1, w1)
        else
          let (r, w2) = os_syscall (SYS_sendto (fd s) buf (of_nat buflen) 0 sa optlen) w1;
              ret = ret_val r
          in
          if ret < 0 then
            let err_code = error_get_last_net w2 in
            if err_code = EINTR then send_to_loop B n s buf buflen sa optlen w2
            else
              let sock_err = error_get_io_from_system err_code in
              if blocking s \<and> sock_err = ERROR_IO_WOULD_BLOCK
              then send_to_loop B n s buf buflen sa optlen w2
              else Some (- 1, error_set_error (ErrorIO_value sock_err) err_code
                                ''Failed to call sendto() on socket'' w2)
          else Some (ret, w2))"

definition socket_send_to ::
    "wait_backend \<Rightarrow> nat \<Rightarrow> Socket option \<Rightarrow> SocketAddress option \<Rightarrow> byte list option \<Rightarrow> nat \<Rightarrow>
       world \<Rightarrow> (int \<times> world) option" where
  "socket_send_to B fuel sock address buffer buflen w =
    (case sock of
       None \<Rightarrow> Some (- 1, error_set_error (ErrorIO_value ERROR_IO_INVALID_ARGUMENT) 0
                            ''Invalid input argument'' w)
     | Some s \<Rightarrow>
        if address = None then
          Some (- 1, error_set_error (ErrorIO_value ERROR_IO_INVALID_ARGUMENT) 0
                       ''Invalid input argument'' w)
        else
          (case buffer of
             None \<Rightarrow> Some (- 1, error_set_error (ErrorIO_value ERROR_IO_INVALID_ARGUMENT) 0
                                  ''Invalid input argument'' w)
           | Some buf \<Rightarrow>
              let (ok, w1) = XX_socket_check s w in
              if \<not> ok then Some (- 1, w1)
              else
                let (conv, sa) =
                       socket_address_to_native address (Some (stack w)) sizeof_sockaddr_storage
                in
                if \<not> conv then
                  Some (- 1, error_set_error (ErrorIO_value ERROR_IO_FAILED) 0
                               ''Failed to convert socket address to native structure'' w1)
                else
                  send_to_loop B fuel s buf buflen (case sa of None \<Rightarrow> [] | Some m \<Rightarrow> m)
                    (of_nat (socket_address_get_native_size address)) w1))"

text \<open>\<^verbatim>\<open>socket_close\<close>, \<^verbatim>\<open>socket_shutdown\<close>, \<^verbatim>\<open>socket_free\<close> and
  \<^verbatim>\<open>socket_set_buffer_size\<close>.\<close>

definition socket_close :: "Socket option \<Rightarrow> world \<Rightarrow> bool \<times> Socket option \<times> world" where
  "socket_close sock w =
    (case sock of
       None \<Rightarrow> (False, None, error_set_error (ErrorIO_value ERROR_IO_INVALID_ARGUMENT) 0
                               ''Invalid input argument'' w)
     | Some s \<Rightarrow>
        if closed s then (True, sock, w)
        else
          let (res, w1) = sys_close (fd s) w in
          if res = 0 then
            (True, Some (s\<lparr>connected := False, closed := True, listening := False,
                           fd := - 1\<rparr>), w1)
          else
            let err_code = error_get_last_net w1 in
            (False, sock,
             error_set_error (ErrorIO_value (error_get_io_from_system err_code)) err_code
               ''Failed to close socket'' w1))"

definition socket_shutdown ::
    "Socket option \<Rightarrow> bool \<Rightarrow> bool \<Rightarrow> world \<Rightarrow> bool \<times> Socket option \<times> world" where
  "socket_shutdown sock shutdown_read shutdown_write w =
    (case sock of
       None \<Rightarrow> (False, None, error_set_error (ErrorIO_value ERROR_IO_INVALID_ARGUMENT) 0
                               ''Invalid input argument'' w)
     | Some s \<Rightarrow>
        let (ok, w1) = XX_socket_check s w in
        if \<not> ok then (False, sock, w1)
        else if \<not> shutdown_read \<and> \<not> shutdown_write then (True, sock, w1)
        else
          let how = (if shutdown_read \<and> shutdown_write then SHUT_RDWR
                     else if shutdown_read then SHUT_RD
                     else SHUT_WR);
              (r, w2) = os_syscall (SYS_shutdown (fd s) how) w1
          in
          if ret_val r \<noteq> 0
          then (False, sock, set_error_from_net ''Failed to call shutdown() on socket'' w2)
          else if shutdown_read \<and> shutdown_write
          then (True, Some (s\<lparr>connected := False\<rparr>), w2)
          else (True, sock, w2))"

text \<open>\<^verbatim>\<open>socket_free\<close> returns the world; the handle is gone afterwards.\<close>

definition socket_free :: "Socket option \<Rightarrow> world \<Rightarrow> world" where
  "socket_free sock w =
    (case sock of
       None \<Rightarrow> w
     | Some s \<Rightarrow>
        let (res, sock', w1) = socket_close sock w
        in snd (os_syscall SYS_free w1))"

definition socket_set_buffer_size ::
    "Socket option \<Rightarrow> SocketDirection \<Rightarrow> nat \<Rightarrow> world \<Rightarrow> bool \<times> world" where
  "socket_set_buffer_size sock dir sz w =
    (case sock of
       None \<Rightarrow> (False, error_set_error (ErrorIO_value ERROR_IO_INVALID_ARGUMENT) 0
                         ''Invalid input argument'' w)
     | Some s \<Rightarrow>
        let (ok, w1) = XX_socket_check s w in
        if \<not> ok then (False, w1)
        else
          let optname = (if dir = SOCKET_DIRECTION_RCV then SO_RCVBUF else SO_SNDBUF);
              optval = (of_nat sz :: int32_t);
              (r, w2) = os_syscall (SYS_setsockopt (fd s) optname optval) w1
          in
          if ret_val r \<noteq> 0
          then (False, set_error_from_net
                  ''Failed to call setsockopt() on socket to set buffer size'' w2)
          else (True, w2))"

text \<open>The calls that wait without bound: \<^verbatim>\<open>poll\<close> with a negative timeout, \<^verbatim>\<open>select\<close>
  with a \<^verbatim>\<open>NULL\<close> timeout.\<close>

fun unbounded_wait :: "os_call \<Rightarrow> bool" where
  "unbounded_wait (SYS_poll f ev t) = (sint t < 0)"
| "unbounded_wait (SYS_select n r w tv) = (tv = None)"
| "unbounded_wait _ = False"

text \<open>The calls that release a descriptor.\<close>

fun is_close :: "os_call \<Rightarrow> bool" where
  "is_close (SYS_close f) = True"
| "is_close _ = False"

subsection \<open>Example values\<close>

text \<open>Concrete inputs on which the theorems below are exercised: the native form of
  127.0.0.1:8080, the same with a non-zero padding byte, the native form of \<open>[::1]:443\<close>
  with flow-info 5 and scope-id 2 and the address it stands for, 127.0.0.1:80, an open socket, and a world in which nothing
  has happened yet.\<close>

definition example_sockaddr_in :: "byte list" where
  "example_sockaddr_in = [2, 0, 0x1f, 0x90, 127, 0, 0, 1, 0, 0, 0, 0, 0, 0, 0, 0]"

definition example_sockaddr_in_padded :: "byte list" where
  "example_sockaddr_in_padded = [2, 0, 0x1f, 0x90, 127, 0, 0, 1, 1, 0, 0, 0, 0, 0, 0, 0]"

definition example_sockaddr_in6 :: "byte list" where
  "example_sockaddr_in6 =
    [10, 0, 0x01, 0xbb, 5, 0, 0, 0,
     0, 0, 0, 0, 0, 0, 0, 0, 0, 0, 0, 0, 0, 0, 0, 1,
     2, 0, 0, 0]"

definition example_address6 :: SocketAddress where
  "example_address6 =
    \<lparr>family = SOCKET_FAMILY_INET6, addr = [0, 0, 0, 0, 0, 0, 0, 0, 0, 0, 0, 0, 0, 0, 0, 1],
     port = 443, flowinfo = 5, scope_id = 2\<rparr>"

definition example_address4 :: SocketAddress where
  "example_address4 =
    \<lparr>family = SOCKET_FAMILY_INET, addr = [127, 0, 0, 1, 0, 0, 0, 0, 0, 0, 0, 0, 0, 0, 0, 0],
     port = 80, flowinfo = 0, scope_id = 0\<rparr>"

definition example_socket :: Socket where
  "example_socket =
    \<lparr>socket_family = SOCKET_FAMILY_INET, protocol = SOCKET_PROTOCOL_TCP,
     socket_type = SOCKET_TYPE_STREAM, fd = 3, listen_backlog = 5, timeout = 0,
     blocking = True, keepalive = False, closed = False, connected = False,
     listening = False\<rparr>"

definition initial_world :: "(nat \<Rightarrow> os_reply) \<Rightarrow> world" where
  "initial_world sys =
    \<lparr>CURRENT_ERROR = \<lparr>code = 0, native_code = 0, message = None\<rparr>, errno = 0, calls = [],
     os = sys, stack = replicate 128 0\<rparr>"

text \<open>The answers of a C library on the four texts of the parsing example.\<close>

definition example_libc :: libc where
  "example_libc =
    \<lparr>getaddrinfo_numeric = (\<lambda>text.
        if text = ''::1''
        then Some \<lparr>ai_family = 10, ai_addrlen = 28,
                   ai_addr = [10, 0, 0, 0, 0, 0, 0, 0,
                              0, 0, 0, 0, 0, 0, 0, 0, 0, 0, 0, 0, 0, 0, 0, 1,
                              0, 0, 0, 0]\<rparr>
        else None),
     inet_pton = (\<lambda>af text.
        if af = AF_INET \<and> text = ''127.0.0.1'' then Some [127, 0, 0, 1]
        else if af = AF_INET \<and> text = ''0.0.0.0'' then Some [0, 0, 0, 0]
        else None)\<rparr>"

definition example_closed_socket :: Socket where
  "example_closed_socket = example_socket\<lparr>closed := True, fd := - 1\<rparr>"

definition example_nonblocking_socket :: Socket where
  "example_nonblocking_socket = example_socket\<lparr>blocking := False\<rparr>"

text \<open>A system that gives the same reply to every call, and one that replies from a
  list and then repeats a last reply.\<close>

definition always :: "os_reply \<Rightarrow> nat \<Rightarrow> os_reply" where
  "always r n = r"

definition replies :: "os_reply list \<Rightarrow> os_reply \<Rightarrow> nat \<Rightarrow> os_reply" where
  "replies rs r n = (if n < length rs then rs ! n else r)"

subsection \<open>Vocabulary of the statements\<close>

text \<open>The two failures an operation reports before it touches the descriptor.\<close>

definition not_available :: "world \<Rightarrow> world" where
  "not_available w =
     error_set_error (ErrorIO_value ERROR_IO_NOT_AVAILABLE) 0 ''Socket is already closed'' w"

definition invalid_argument :: "world \<Rightarrow> world" where
  "invalid_argument w =
     error_set_error (ErrorIO_value ERROR_IO_INVALID_ARGUMENT) 0 ''Invalid input argument'' w"

text \<open>What \<^verbatim>\<open>poll\<close> or \<^verbatim>\<open>select\<close> on one descriptor can answer when it is called without
  a timeout: the descriptor is ready (return value 1), or the call failed with an errno
  other than \<^verbatim>\<open>ETIMEDOUT\<close>. It cannot report that the time is up.\<close>

fun unbounded_wait_reply :: "os_reply \<Rightarrow> bool" where
  "unbounded_wait_reply (Ok n _ _) = (n = 1)"
| "unbounded_wait_reply (Fail e) = (e \<noteq> ETIMEDOUT)"

text \<open>The call \<^verbatim>\<open>socket_io_condition_wait\<close> makes to the system in each iteration.\<close>

definition wait_call :: "wait_backend \<Rightarrow> Socket \<Rightarrow> SocketIOCondition \<Rightarrow> os_call" where
  "wait_call B s cond =
    (case B of
       SOCKET_USE_POLL \<Rightarrow>
         SYS_poll (fd s) (if cond = SOCKET_IO_CONDITION_POLLIN then POLLIN else POLLOUT)
           (if 0 < sint (timeout s) then timeout s else - 1)
     | SOCKET_USE_SELECT \<Rightarrow>
         SYS_select (fd s + 1)
           (if cond = SOCKET_IO_CONDITION_POLLIN then Some (fd s) else None)
           (if cond = SOCKET_IO_CONDITION_POLLIN then None else Some (fd s))
           (if 0 < sint (timeout s)
            then Some (timeout s div 1000, (timeout s mod 1000) * 1000)
            else None))"

text \<open>The native form of an address as \<^verbatim>\<open>socket_connect\<close> and its siblings build it: in
  an uninitialised \<^verbatim>\<open>struct sockaddr_storage\<close> local.\<close>

definition native_in_local :: "world \<Rightarrow> SocketAddress \<Rightarrow> byte list" where
  "native_in_local w a =
    (case snd (socket_address_to_native (Some a) (Some (stack w)) sizeof_sockaddr_storage) of
       None \<Rightarrow> [] | Some m \<Rightarrow> m)"

text \<open>The loop of \<^verbatim>\<open>socket_io_condition_wait\<close> for either back end.\<close>

definition wait_loop ::
    "wait_backend \<Rightarrow> nat \<Rightarrow> Socket \<Rightarrow> SocketIOCondition \<Rightarrow> world \<Rightarrow> (bool \<times> world) option" where
  "wait_loop B fuel s cond w =
    (case B of
       SOCKET_USE_POLL \<Rightarrow>
         poll_loop fuel (fd s)
           (if cond = SOCKET_IO_CONDITION_POLLIN then POLLIN else POLLOUT)
           (if 0 < sint (timeout s) then timeout s else - 1) w
     | SOCKET_USE_SELECT \<Rightarrow> select_loop fuel s cond w)"

section \<open>Properties\<close>

subsection \<open>Auxiliary facts\<close>

lemmas errno_defs =
  EPERM_def ENOENT_def EINTR_def EBADF_def EAGAIN_def ENOMEM_def EACCES_def EFAULT_def
  EEXIST_def ENOTDIR_def EISDIR_def EINVAL_def ENFILE_def EMFILE_def ENOSPC_def
  ENAMETOOLONG_def ENOSYS_def ENOSR_def ENONET_def ENOTSOCK_def EPROTOTYPE_def
  ENOPROTOOPT_def EPROTONOSUPPORT_def EOPNOTSUPP_def EAFNOSUPPORT_def EADDRINUSE_def
  EADDRNOTAVAIL_def ENETDOWN_def ENETUNREACH_def ECONNABORTED_def ENOBUFS_def EISCONN_def
  ENOTCONN_def ETIMEDOUT_def ECONNREFUSED_def EHOSTDOWN_def EHOSTUNREACH_def EALREADY_def
  EINPROGRESS_def EDQUOT_def

lemma le16_split: "ucast (le16 a b) = a" "ucast (drop_bit 8 (le16 a b)) = b"
  unfolding le16_def
  by (rule bit_word_eqI, auto simp: bit_simps dest: bit_imp_le_length)+

lemma le16_join: "le16 (ucast w) (ucast (drop_bit 8 w)) = w"
  unfolding le16_def
  by (rule bit_word_eqI) (auto simp: bit_simps)

lemma le32_split:
  "ucast (le32 a b c d) = a" "ucast (drop_bit 8 (le32 a b c d)) = b"
  "ucast (drop_bit 16 (le32 a b c d)) = c" "ucast (drop_bit 24 (le32 a b c d)) = d"
  unfolding le32_def
  by (rule bit_word_eqI, auto simp: bit_simps dest: bit_imp_le_length)+

lemma le32_join:
  "le32 (ucast w) (ucast (drop_bit 8 w)) (ucast (drop_bit 16 w)) (ucast (drop_bit 24 w)) = w"
  unfolding le32_def
proof (rule bit_word_eqI)
  fix n assume n: "n < LENGTH(32)"
  let ?lhs = "ucast (ucast w :: byte) OR push_bit 8 (ucast (ucast (drop_bit 8 w) :: byte)) OR
          push_bit 16 (ucast (ucast (drop_bit 16 w) :: byte)) OR
          push_bit 24 (ucast (ucast (drop_bit 24 w) :: byte)) :: uint32_t"
  consider "n < 8" | "8 \<le> n" "n < 16" | "16 \<le> n" "n < 24" | "24 \<le> n" by linarith
  then show "bit ?lhs n = bit w n"
    using n by cases (auto simp: bit_simps)
qed

lemma load16_store16: "load16 (store16 w) = w"
  by (simp add: load16_def store16_def le16_join)

lemma load32_store32: "load32 (store32 w) = w"
  by (simp add: load32_def store32_def le32_join)

lemma store16_load16: "2 \<le> length bs \<Longrightarrow> store16 (load16 bs) = take 2 bs"
  by (cases bs; cases "tl bs") (auto simp: load16_def store16_def le16_split)

lemma store32_load32: "4 \<le> length bs \<Longrightarrow> store32 (load32 bs) = take 4 bs"
proof -
  assume "4 \<le> length bs"
  then obtain a b c d r where "bs = a # b # c # d # r"
    by (cases bs; cases "tl bs"; cases "tl (tl bs)"; cases "tl (tl (tl bs))") auto
  then show ?thesis by (simp add: load32_def store32_def le32_split)
qed

lemma ntohs_htons: "ntohs (htons w) = w"
  by (simp add: ntohs_def htons_def load16_def store16_def le16_split le16_join)

lemma htons_ntohs: "htons (ntohs w) = w"
  by (simp add: ntohs_def htons_def load16_def store16_def le16_split le16_join)

lemma length_store16: "length (store16 w) = 2" by (simp add: store16_def)
lemma length_store32: "length (store32 w) = 4" by (simp add: store32_def)

lemma load16_append: "length xs = 2 \<Longrightarrow> load16 (xs @ ys) = load16 xs"
  by (cases xs; cases "tl xs") (auto simp: load16_def)

lemma load32_append: "length xs = 4 \<Longrightarrow> load32 (xs @ ys) = load32 xs"
  by (cases xs; cases "tl xs"; cases "tl (tl xs)"; cases "tl (tl (tl xs))") (auto simp: load32_def)

lemma to_native_inet:
  assumes "family a = SOCKET_FAMILY_INET" "16 \<le> destlen" "16 \<le> length d" "4 \<le> length (addr a)"
  shows "socket_address_to_native (Some a) (Some d) destlen =
     (True, Some (store16 AF_INET @ store16 (htons (port a)) @ take 4 (addr a) @ replicate 8 0 @ drop 16 d))"
  using assms
  by (simp add: socket_address_to_native_def sizeof_sockaddr_in_def sizeof_in_addr_def memcpy_def memset0_def Let_def length_store16)

lemma to_native_inet6:
  assumes "family a = SOCKET_FAMILY_INET6" "28 \<le> destlen" "28 \<le> length d" "16 \<le> length (addr a)"
  shows "socket_address_to_native (Some a) (Some d) destlen =
     (True, Some (store16 AF_INET6 @ store16 (htons (port a)) @ store32 (flowinfo a) @ take 16 (addr a) @ store32 (scope_id a) @ drop 28 d))"
  using assms
  by (simp add: socket_address_to_native_def sizeof_sockaddr_in6_def sizeof_in6_addr_def memcpy_def Let_def length_store16 length_store32)

lemma from_native_inet:
  assumes "load16 b = AF_INET" "16 \<le> len"
  shows "socket_address_new_from_native True (Some b) len =
     Some \<lparr>family = SOCKET_FAMILY_INET, addr = take 4 (drop 4 b) @ replicate 12 0,
           port = ntohs (load16 (drop 2 b)), flowinfo = 0, scope_id = 0\<rparr>"
  using assms
  by (simp add: socket_address_new_from_native_def calloc_SocketAddress_def
      sizeof_sockaddr_in_def sizeof_in_addr_def memcpy_def Let_def)

lemma from_native_inet6:
  assumes "load16 b = AF_INET6" "28 \<le> len" "28 \<le> length b"
  shows "socket_address_new_from_native True (Some b) len =
     Some \<lparr>family = SOCKET_FAMILY_INET6, addr = take 16 (drop 8 b),
           port = ntohs (load16 (drop 2 b)), flowinfo = load32 (drop 4 b),
           scope_id = load32 (drop 24 b)\<rparr>"
  using assms
  by (simp add: socket_address_new_from_native_def calloc_SocketAddress_def AF_INET_def AF_INET6_def
      sizeof_sockaddr_in6_def sizeof_in6_addr_def memcpy_def Let_def)

lemma native_inet_roundtrip:
  assumes fam: "load16 b = AF_INET" and len: "16 \<le> len" "16 \<le> length b"
      and pad: "take 8 (drop 8 b) = replicate 8 0"
      and dst: "16 \<le> destlen" "16 \<le> length dest"
  shows "socket_address_to_native (socket_address_new_from_native True (Some b) len) (Some dest) destlen
         = (True, Some (take 16 b @ drop 16 dest))"
proof -
  have f: "store16 AF_INET = take 2 b"
    using store16_load16 [of b] fam len by simp
  have p: "store16 (htons (ntohs (load16 (drop 2 b)))) = take 2 (drop 2 b)"
    using store16_load16 [of "drop 2 b"] len by (simp add: htons_ntohs)
  have "take 16 b = take 2 b @ take 2 (drop 2 b) @ take 4 (drop 4 b) @ take 8 (drop 8 b)"
    using take_add [of 2 2 b] take_add [of 4 4 b] take_add [of 8 8 b] by simp
  then show ?thesis
    using dst len by (simp add: from_native_inet [OF fam len(1)] to_native_inet f p pad)
qed

lemma native_inet6_roundtrip:
  assumes fam: "load16 b = AF_INET6" and len: "28 \<le> len" "28 \<le> length b"
      and dst: "28 \<le> destlen" "28 \<le> length dest"
  shows "socket_address_to_native (socket_address_new_from_native True (Some b) len) (Some dest) destlen
         = (True, Some (take 28 b @ drop 28 dest))"
proof -
  have f: "store16 AF_INET6 = take 2 b"
    using store16_load16 [of b] fam len by simp
  have p: "store16 (htons (ntohs (load16 (drop 2 b)))) = take 2 (drop 2 b)"
    using store16_load16 [of "drop 2 b"] len by (simp add: htons_ntohs)
  have fl: "store32 (load32 (drop 4 b)) = take 4 (drop 4 b)"
    using store32_load32 [of "drop 4 b"] len by simp
  have sc: "store32 (load32 (drop 24 b)) = take 4 (drop 24 b)"
    using store32_load32 [of "drop 24 b"] len by simp
  have "take 28 b = take 2 b @ take 2 (drop 2 b) @ take 4 (drop 4 b) @ take 16 (drop 8 b) @ take 4 (drop 24 b)"
    using take_add [of 2 2 b] take_add [of 4 4 b] take_add [of 8 16 b] take_add [of 24 4 b] by simp
  then show ?thesis
    using dst len by (simp add: from_native_inet6 [OF fam len] to_native_inet6 f p fl sc)
qed

lemma address_inet_roundtrip:
  assumes c: "constructed a" and fam: "family a = SOCKET_FAMILY_INET"
      and dst: "16 \<le> destlen" "16 \<le> length dest"
  shows "fst (socket_address_to_native (Some a) (Some dest) destlen) \<and>
    socket_address_new_from_native True (snd (socket_address_to_native (Some a) (Some dest) destlen)) destlen = Some a"
proof -
  from c fam have a: "length (addr a) = 16" "drop 4 (addr a) = replicate 12 0" "flowinfo a = 0" "scope_id a = 0"
    by (auto simp: constructed_def)
  have "take 4 (addr a) @ replicate 12 0 = addr a"
    using a(2) append_take_drop_id [of 4 "addr a"] by simp
  then show ?thesis
    using dst a fam
    by (simp add: to_native_inet from_native_inet load16_append load16_store16 ntohs_htons length_store16)
qed

lemma address_inet6_roundtrip:
  assumes c: "constructed a" and fam: "family a = SOCKET_FAMILY_INET6"
      and dst: "28 \<le> destlen" "28 \<le> length dest"
  shows "fst (socket_address_to_native (Some a) (Some dest) destlen) \<and>
    socket_address_new_from_native True (snd (socket_address_to_native (Some a) (Some dest) destlen)) destlen = Some a"
proof -
  from c fam have a: "length (addr a) = 16"
    by (auto simp: constructed_def)
  show ?thesis
    using dst a fam
    by (simp add: to_native_inet6 from_native_inet6 load16_append load32_append load16_store16
        load32_store32 ntohs_htons length_store16 length_store32)
qed

lemma bytes_to_address_to_bytes:
  assumes wf: "well_formed_native b len" and pad: "sin_zero_clear b"
      and dst: "native_struct_size b \<le> destlen" "destlen \<le> length dest"
  shows "socket_address_to_native (socket_address_new_from_native True (Some b) len)
           (Some dest) destlen
         = (True, Some (take (native_struct_size b) b @ drop (native_struct_size b) dest))"
proof (cases "load16 b = AF_INET")
  case True
  then have n: "native_struct_size b = 16"
    by (simp add: native_struct_size_def sizeof_sockaddr_in_def)
  show ?thesis
    unfolding n using True wf pad dst n
    by (intro native_inet_roundtrip) (auto simp: well_formed_native_def sin_zero_clear_def)
next
  case False
  with wf have six: "load16 b = AF_INET6" by (simp add: well_formed_native_def)
  then have n: "native_struct_size b = 28"
    using False by (simp add: native_struct_size_def sizeof_sockaddr_in6_def)
  show ?thesis
    unfolding n using six wf dst n
    by (intro native_inet6_roundtrip) (auto simp: well_formed_native_def)
qed

lemma address_to_bytes_to_address:
  assumes c: "constructed a"
      and dst: "socket_address_get_native_size (Some a) \<le> destlen" "destlen \<le> length dest"
  shows "fst (socket_address_to_native (Some a) (Some dest) destlen) \<and>
         socket_address_new_from_native True
           (snd (socket_address_to_native (Some a) (Some dest) destlen)) destlen = Some a"
proof (cases "family a = SOCKET_FAMILY_INET")
  case True
  with dst show ?thesis
    by (intro address_inet_roundtrip c)
       (auto simp: socket_address_get_native_size_def sizeof_sockaddr_in_def)
next
  case False
  with c have six: "family a = SOCKET_FAMILY_INET6" by (auto simp: constructed_def)
  with dst show ?thesis
    by (intro address_inet6_roundtrip c)
       (auto simp: socket_address_get_native_size_def sizeof_sockaddr_in6_def)
qed

lemma from_native_constructed:
  assumes "socket_address_new_from_native m (Some b) len = Some a" "len \<le> length b"
  shows "constructed a"
  using assms
  by (auto simp: socket_address_new_from_native_def calloc_SocketAddress_def constructed_def
      memcpy_def sizeof_sockaddr_in_def sizeof_sockaddr_in6_def sizeof_in_addr_def
      sizeof_in6_addr_def Let_def split: if_splits)

lemma new_any_constructed:
  "socket_address_new_any m fam p = Some a \<Longrightarrow> constructed a"
  by (auto simp: socket_address_new_any_def calloc_SocketAddress_def constructed_def memcpy_def
      any_addr_def any6_addr_def split: if_splits)

lemma new_loopback_constructed:
  "socket_address_new_loopback m fam p = Some a \<Longrightarrow> constructed a"
  by (auto simp: socket_address_new_loopback_def calloc_SocketAddress_def constructed_def
      memcpy_def loop_addr_def loop6_addr_def split: if_splits)

lemma new_constructed:
  assumes "socket_address_new L m adr p = Some a" "libc_sizes_ok L"
  shows "constructed a"
proof (cases adr)
  case None
  with assms show ?thesis by (simp add: socket_address_new_def)
next
  case (Some t)
  from assms(2) have
    p4: "\<And>bs. inet_pton L AF_INET t = Some bs \<Longrightarrow> length bs = 4" and
    p6: "\<And>bs. inet_pton L AF_INET6 t = Some bs \<Longrightarrow> length bs = 16" and
    gai: "\<And>res. getaddrinfo_numeric L t = Some res \<Longrightarrow> ai_addrlen res \<le> length (ai_addr res)"
    unfolding libc_sizes_ok_def by blast+
  show ?thesis
  proof (cases "CHR '':'' \<in> set t")
    case True
    with assms(1) Some obtain res where
      r: "getaddrinfo_numeric L t = Some res" "ai_addrlen res = sizeof_sockaddr_in6"
         "socket_address_new_from_native m
            (Some (memcpy (ai_addr res) 2 (store16 (htons p)) 2)) (ai_addrlen res) = Some a"
      by (auto simp: socket_address_new_def split: option.splits if_splits)
    have "ai_addrlen res \<le> length (memcpy (ai_addr res) 2 (store16 (htons p)) 2)"
      using gai [OF r(1)] r(2)
      by (simp add: memcpy_def sizeof_sockaddr_in6_def length_store16)
    with r(3) show ?thesis by (rule from_native_constructed)
  next
    case False
    with assms(1) Some show ?thesis
      by (auto simp: socket_address_new_def calloc_SocketAddress_def constructed_def memcpy_def
          sizeof_in_addr_def sizeof_in6_addr_def Let_def
          split: option.splits if_splits dest!: p4 p6)
  qed
qed

lemma setters_constructed:
  "constructed a \<Longrightarrow> socket_address_set_flow_info cfg (Some a) v = Some a' \<Longrightarrow> constructed a'"
  "constructed a \<Longrightarrow> socket_address_set_scope_id cfg (Some a) v = Some a' \<Longrightarrow> constructed a'"
  by (auto simp: socket_address_set_flow_info_def socket_address_set_scope_id_def constructed_def
      split: if_splits)

lemma ErrorIO_all_complete: "k \<in> set ErrorIO_all"
  by (cases k) (simp_all add: ErrorIO_all_def)

lemma ErrorIO_value_range: "500 \<le> uint (ErrorIO_value k) \<and> uint (ErrorIO_value k) \<le> 522"
  by (cases k) simp_all

lemma unmapped_is_failed:
  "e \<notin> set mapped_error_numbers \<Longrightarrow> error_get_io_from_system e = ERROR_IO_FAILED"
  by (simp add: mapped_error_numbers_def error_get_io_from_system_def)

lemma socket_close_closed: "closed s \<Longrightarrow> socket_close (Some s) w = (True, Some s, w)"
  by (simp add: socket_close_def)

lemma socket_close_open:
  assumes "\<not> closed s" and "socket_close (Some s) w = (True, sock', w')"
  shows "sock' = Some (s\<lparr>connected := False, closed := True, listening := False, fd := - 1\<rparr>) \<and>
         calls w' = calls w @ [SYS_close (fd s)]"
  using assms
  by (auto simp: socket_close_def sys_close_def os_syscall_def Let_def split: if_splits prod.splits)

lemma check_closed: "closed s \<Longrightarrow> XX_socket_check s w = (False, not_available w)"
  by (simp add: XX_socket_check_def not_available_def)

lemma check_open: "\<not> closed s \<Longrightarrow> XX_socket_check s w = (True, w)"
  by (simp add: XX_socket_check_def)

lemma failure_worlds:
  "calls (not_available w) = calls w" "calls (invalid_argument w) = calls w"
  "error_get_code (not_available w) = ErrorIO_value ERROR_IO_NOT_AVAILABLE"
  "error_get_code (invalid_argument w) = ErrorIO_value ERROR_IO_INVALID_ARGUMENT"
  by (simp_all add: not_available_def invalid_argument_def error_set_error_def error_get_code_def)

lemma classify_EINTR: "error_get_io_from_system EINTR = ERROR_IO_FAILED"
  by (simp add: error_get_io_from_system_def errno_defs)

lemma classify_timed_out:
  "error_get_io_from_system e = ERROR_IO_TIMED_OUT \<longleftrightarrow> e = ETIMEDOUT"
  by (simp add: error_get_io_from_system_def errno_defs)

lemma ErrorIO_value_timed_out: "ErrorIO_value k = 509 \<longleftrightarrow> k = ERROR_IO_TIMED_OUT"
  by (cases k) simp_all

lemma syscall_fail:
  "os w (length (calls w)) = Fail e \<Longrightarrow>
     os_syscall c w = (Fail e, w\<lparr>calls := calls w @ [c], errno := e\<rparr>)"
  by (simp add: os_syscall_def)

lemma syscall_ok:
  "os w (length (calls w)) = Ok n a b \<Longrightarrow>
     os_syscall c w = (Ok n a b, w\<lparr>calls := calls w @ [c]\<rparr>)"
  by (simp add: os_syscall_def)

lemma connect_loop_interrupted:
  assumes "\<forall>i<n. os w (length (calls w) + i) = Fail EINTR"
  shows "connect_loop (n + k) f buf len w =
         connect_loop k f buf len
           (w\<lparr>calls := calls w @ replicate n (SYS_connect f buf len),
              errno := (if n = 0 then errno w else EINTR)\<rparr>)"
  using assms
proof (induction n arbitrary: w)
  case 0
  then show ?case by simp
next
  case (Suc n)
  let ?c = "SYS_connect f buf len"
  let ?w1 = "w\<lparr>calls := calls w @ [?c], errno := EINTR\<rparr>"
  from Suc.prems have h0: "os w (length (calls w)) = Fail EINTR"
    by (metis add.right_neutral zero_less_Suc)
  have "\<forall>i<n. os ?w1 (length (calls ?w1) + i) = Fail EINTR"
    using Suc.prems by (auto dest: spec [of _ "Suc _"])
  then have ih: "connect_loop (n + k) f buf len ?w1 =
         connect_loop k f buf len
           (?w1\<lparr>calls := calls ?w1 @ replicate n ?c,
              errno := (if n = 0 then errno ?w1 else EINTR)\<rparr>)"
    by (rule Suc.IH)
  have "connect_loop (Suc n + k) f buf len w = connect_loop (n + k) f buf len ?w1"
    by (simp add: syscall_fail [OF h0] error_get_last_net_def error_get_last_system_def)
  also note ih
  finally show ?case
    by (simp add: replicate_append_same)
qed

lemma to_native_storage:
  assumes "family a \<noteq> SOCKET_FAMILY_UNKNOWN"
  shows "socket_address_to_native (Some a) (Some (stack w)) sizeof_sockaddr_storage =
           (True, Some (native_in_local w a))"
  using assms
  by (cases "family a")
     (simp_all add: native_in_local_def socket_address_to_native_def
        sizeof_sockaddr_storage_def sizeof_sockaddr_in_def sizeof_sockaddr_in6_def Let_def)

lemma poll_loop_interrupted:
  assumes "\<forall>i<n. os w (length (calls w) + i) = Fail EINTR"
  shows "poll_loop (n + k) f ev t w =
         poll_loop k f ev t
           (w\<lparr>calls := calls w @ replicate n (SYS_poll f ev t),
              errno := (if n = 0 then errno w else EINTR)\<rparr>)"
  using assms
proof (induction n arbitrary: w)
  case 0
  then show ?case by simp
next
  case (Suc n)
  let ?c = "SYS_poll f ev t"
  let ?w1 = "w\<lparr>calls := calls w @ [?c], errno := EINTR\<rparr>"
  from Suc.prems have h0: "os w (length (calls w)) = Fail EINTR"
    by (metis add.right_neutral zero_less_Suc)
  have "\<forall>i<n. os ?w1 (length (calls ?w1) + i) = Fail EINTR"
    using Suc.prems by (auto dest: spec [of _ "Suc _"])
  then have ih: "poll_loop (n + k) f ev t ?w1 =
         poll_loop k f ev t
           (?w1\<lparr>calls := calls ?w1 @ replicate n ?c,
              errno := (if n = 0 then errno ?w1 else EINTR)\<rparr>)"
    by (rule Suc.IH)
  have "poll_loop (Suc n + k) f ev t w = poll_loop (n + k) f ev t ?w1"
    by (simp add: syscall_fail [OF h0] error_get_last_net_def error_get_last_system_def)
  also note ih
  finally show ?case
    by (simp add: replicate_append_same)
qed

lemma select_call:
  "(if cond = SOCKET_IO_CONDITION_POLLIN
    then os_syscall (SYS_select (fd s + 1) (Some (fd s)) None
           (if 0 < sint (timeout s)
            then Some (timeout s div 1000, (timeout s mod 1000) * 1000) else None)) w
    else os_syscall (SYS_select (fd s + 1) None (Some (fd s))
           (if 0 < sint (timeout s)
            then Some (timeout s div 1000, (timeout s mod 1000) * 1000) else None)) w)
   = os_syscall (wait_call SOCKET_USE_SELECT s cond) w"
  by (simp add: wait_call_def)

lemma select_loop_Suc:
  "select_loop (Suc n) s cond w =
    (let (r, w1) = os_syscall (wait_call SOCKET_USE_SELECT s cond) w;
         evret = ret_val r
     in if evret = - 1 \<and> error_get_last_net w1 = EINTR then select_loop n s cond w1
        else if evret = 1 then Some (True, w1)
        else if evret = 0 then
          Some (False, error_set_error (ErrorIO_value ERROR_IO_TIMED_OUT)
                         (error_get_last_net w1)
                         ''Timed out while waiting socket condition'' w1)
        else Some (False, set_error_from_net ''Failed to call select() on socket'' w1))"
  by (simp add: select_call Let_def)

lemma select_loop_interrupted:
  assumes "\<forall>i<n. os w (length (calls w) + i) = Fail EINTR"
  shows "select_loop (n + k) s cond w =
         select_loop k s cond
           (w\<lparr>calls := calls w @ replicate n (wait_call SOCKET_USE_SELECT s cond),
              errno := (if n = 0 then errno w else EINTR)\<rparr>)"
  using assms
proof (induction n arbitrary: w)
  case 0
  then show ?case by simp
next
  case (Suc n)
  let ?c = "wait_call SOCKET_USE_SELECT s cond"
  let ?w1 = "w\<lparr>calls := calls w @ [?c], errno := EINTR\<rparr>"
  from Suc.prems have h0: "os w (length (calls w)) = Fail EINTR"
    by (metis add.right_neutral zero_less_Suc)
  have "\<forall>i<n. os ?w1 (length (calls ?w1) + i) = Fail EINTR"
    using Suc.prems by (auto dest: spec [of _ "Suc _"])
  then have ih: "select_loop (n + k) s cond ?w1 =
         select_loop k s cond
           (?w1\<lparr>calls := calls ?w1 @ replicate n ?c,
              errno := (if n = 0 then errno ?w1 else EINTR)\<rparr>)"
    by (rule Suc.IH)
  have "select_loop (Suc n + k) s cond w = select_loop (n + k) s cond ?w1"
    by (simp add: select_loop_Suc syscall_fail [OF h0] error_get_last_net_def
        error_get_last_system_def del: select_loop.simps)
  also note ih
  finally show ?case
    by (simp add: replicate_append_same)
qed

lemma wait_open:
  "\<not> closed s \<Longrightarrow> socket_io_condition_wait B fuel (Some s) cond w = wait_loop B fuel s cond w"
  by (cases B) (simp_all add: socket_io_condition_wait_def check_open wait_loop_def Let_def)

lemma wait_loop_0: "wait_loop B 0 s cond w = None"
  by (cases B) (simp_all add: wait_loop_def)

lemma wait_loop_Suc:
  "wait_loop B (Suc n) s cond w =
    (let (r, w1) = os_syscall (wait_call B s cond) w;
         evret = ret_val r
     in if evret = - 1 \<and> error_get_last_net w1 = EINTR then wait_loop B n s cond w1
        else if evret = 1 then Some (True, w1)
        else if evret = 0 then
          Some (False, error_set_error (ErrorIO_value ERROR_IO_TIMED_OUT)
                         (error_get_last_net w1)
                         ''Timed out while waiting socket condition'' w1)
        else Some (False, set_error_from_net
               (case B of SOCKET_USE_POLL \<Rightarrow> ''Failed to call poll() on socket''
                | SOCKET_USE_SELECT \<Rightarrow> ''Failed to call select() on socket'') w1))"
  by (cases B)
     (simp_all add: wait_loop_def select_loop_Suc wait_call_def Let_def case_prod_beta
        del: select_loop.simps)

lemma wait_loop_interrupted:
  assumes "\<forall>i<n. os w (length (calls w) + i) = Fail EINTR"
  shows "wait_loop B (n + k) s cond w =
         wait_loop B k s cond
           (w\<lparr>calls := calls w @ replicate n (wait_call B s cond),
              errno := (if n = 0 then errno w else EINTR)\<rparr>)"
proof (cases B)
  case SOCKET_USE_POLL
  then show ?thesis
    using poll_loop_interrupted [OF assms] by (simp add: wait_loop_def wait_call_def)
next
  case SOCKET_USE_SELECT
  then show ?thesis
    using select_loop_interrupted [OF assms] by (simp add: wait_loop_def)
qed

lemma wait_loop_calls:
  "wait_loop B fuel s cond w = Some (res, w') \<Longrightarrow>
     \<exists>k. calls w' = calls w @ replicate (Suc k) (wait_call B s cond)"
proof (induction fuel arbitrary: w)
  case 0
  then show ?case by (simp add: wait_loop_0)
next
  case (Suc fuel)
  let ?c = "wait_call B s cond"
  obtain r w1 where sc: "os_syscall ?c w = (r, w1)" by (cases "os_syscall ?c w")
  then have c1: "calls w1 = calls w @ [?c]"
    by (auto simp: os_syscall_def Let_def)
  show ?case
  proof (cases "ret_val r = - 1 \<and> error_get_last_net w1 = EINTR")
    case True
    with Suc.prems sc have "wait_loop B fuel s cond w1 = Some (res, w')"
      by (simp add: wait_loop_Suc)
    from Suc.IH [OF this] obtain k where "calls w' = calls w1 @ replicate (Suc k) ?c" ..
    then have "calls w' = calls w @ replicate (Suc (Suc k)) ?c"
      by (simp add: c1)
    then show ?thesis ..
  next
    case False
    with Suc.prems sc have "calls w' = calls w1"
      by (auto simp: wait_loop_Suc error_set_error_def set_error_from_net_def Let_def
          split: if_splits)
    then have "calls w' = calls w @ replicate (Suc 0) ?c"
      by (simp add: c1)
    then show ?thesis ..
  qed
qed

lemma wait_loop_no_timeout:
  assumes "wait_loop B fuel s cond w = Some (res, w')"
      and "\<forall>i\<ge>length (calls w). unbounded_wait_reply (os w i)"
  shows "res \<or> error_get_code w' \<noteq> ErrorIO_value ERROR_IO_TIMED_OUT"
  using assms
proof (induction fuel arbitrary: w)
  case 0
  then show ?case by (simp add: wait_loop_0)
next
  case (Suc fuel)
  let ?c = "wait_call B s cond"
  from Suc.prems(2) have now: "unbounded_wait_reply (os w (length (calls w)))" by simp
  show ?case
  proof (cases "os w (length (calls w))")
    case (Ok n a b)
    with now have n: "n = 1" by simp
    from Suc.prems(1) show ?thesis
      by (simp add: wait_loop_Suc syscall_ok [OF Ok] n)
  next
    case (Fail e)
    with now have e: "e \<noteq> ETIMEDOUT" by simp
    let ?w1 = "w\<lparr>calls := calls w @ [?c], errno := e\<rparr>"
    show ?thesis
    proof (cases "e = EINTR")
      case True
      with Suc.prems(1) have "wait_loop B fuel s cond ?w1 = Some (res, w')"
        by (simp add: wait_loop_Suc syscall_fail [OF Fail] error_get_last_net_def
            error_get_last_system_def)
      moreover have "\<forall>i\<ge>length (calls ?w1). unbounded_wait_reply (os ?w1 i)"
        using Suc.prems(2) by simp
      ultimately show ?thesis by (rule Suc.IH)
    next
      case False
      with Suc.prems(1) e show ?thesis
        by (auto simp: wait_loop_Suc syscall_fail [OF Fail] error_get_last_net_def
            error_get_last_system_def set_error_from_net_def error_set_error_def
            error_get_code_def ErrorIO_value_timed_out classify_timed_out)
    qed
  qed
qed

lemma wait_loop_times_out:
  assumes intr: "\<forall>i<n. os w (length (calls w) + i) = Fail EINTR"
      and last: "ret_val (os w (length (calls w) + n)) = 0"
      and fuel: "n < fuel"
  shows "wait_loop B fuel s cond w =
     Some (False,
       error_set_error (ErrorIO_value ERROR_IO_TIMED_OUT) (if n = 0 then errno w else EINTR)
         ''Timed out while waiting socket condition''
         (w\<lparr>calls := calls w @ replicate (Suc n) (wait_call B s cond),
            errno := (if n = 0 then errno w else EINTR)\<rparr>))"
proof -
  let ?c = "wait_call B s cond"
  let ?w1 = "w\<lparr>calls := calls w @ replicate n ?c, errno := (if n = 0 then errno w else EINTR)\<rparr>"
  from fuel obtain k where k: "fuel = n + Suc k"
    by (metis add_Suc_right less_iff_Suc_add)
  from last obtain a b where ok: "os w (length (calls w) + n) = Ok 0 a b"
    by (cases "os w (length (calls w) + n)") auto
  then have l: "os ?w1 (length (calls ?w1)) = Ok 0 a b" by simp
  have "wait_loop B fuel s cond w = wait_loop B (Suc k) s cond ?w1"
    unfolding k using intr by (rule wait_loop_interrupted)
  also have "\<dots> = Some (False,
       error_set_error (ErrorIO_value ERROR_IO_TIMED_OUT) (errno ?w1)
         ''Timed out while waiting socket condition'' (?w1\<lparr>calls := calls ?w1 @ [?c]\<rparr>))"
    by (simp add: wait_loop_Suc syscall_ok [OF l] error_get_last_net_def
        error_get_last_system_def)
  finally show ?thesis
    by (simp add: replicate_append_same error_set_error_def)
qed

lemma wait_loop_ready:
  assumes intr: "\<forall>i<n. os w (length (calls w) + i) = Fail EINTR"
      and last: "ret_val (os w (length (calls w) + n)) = 1"
      and fuel: "n < fuel"
  shows "wait_loop B fuel s cond w =
     Some (True,
       w\<lparr>calls := calls w @ replicate (Suc n) (wait_call B s cond),
          errno := (if n = 0 then errno w else EINTR)\<rparr>)"
proof -
  let ?c = "wait_call B s cond"
  let ?w1 = "w\<lparr>calls := calls w @ replicate n ?c, errno := (if n = 0 then errno w else EINTR)\<rparr>"
  from fuel obtain k where k: "fuel = n + Suc k"
    by (metis add_Suc_right less_iff_Suc_add)
  from last obtain a b where ok: "os w (length (calls w) + n) = Ok 1 a b"
    by (cases "os w (length (calls w) + n)") auto
  then have l: "os ?w1 (length (calls ?w1)) = Ok 1 a b" by simp
  have "wait_loop B fuel s cond w = wait_loop B (Suc k) s cond ?w1"
    unfolding k using intr by (rule wait_loop_interrupted)
  also have "\<dots> = Some (True, ?w1\<lparr>calls := calls ?w1 @ [?c]\<rparr>)"
    by (simp add: wait_loop_Suc syscall_ok [OF l])
  finally show ?thesis
    by (simp add: replicate_append_same)
qed

lemma wait_call_unbounded:
  "unbounded_wait (wait_call B s cond) \<longleftrightarrow> \<not> 0 < sint (timeout s)"
  by (cases B) (simp_all add: wait_call_def)

lemma null_buffer_rejected:
  "socket_receive B fuel (Some s) None buflen w = Some (- 1, None, invalid_argument w)"
  "socket_receive_from B fuel (Some s) want None buflen w =
     Some (- 1, None, None, invalid_argument w)"
  "socket_send B fuel (Some s) None buflen w = Some (- 1, invalid_argument w)"
  "socket_send_to B fuel (Some s) address None buflen w = Some (- 1, invalid_argument w)"
  by (simp_all add: socket_receive_def socket_receive_from_def socket_send_def
      socket_send_to_def invalid_argument_def)

lemma zero_length_rejected:
  "socket_receive_from B fuel (Some s) want buffer 0 w =
     Some (- 1, None, buffer, invalid_argument w)"
  "socket_send B fuel (Some s) buffer 0 w = Some (- 1, invalid_argument w)"
  by (cases buffer; simp add: socket_receive_from_def socket_send_def invalid_argument_def)+

lemma flow_info_scope_id_by_build:
  "(PLIBSYS_SOCKADDR_IN6_HAS_FLOWINFO cfg \<and> family a = SOCKET_FAMILY_INET6 \<longrightarrow>
      socket_address_get_flow_info cfg (socket_address_set_flow_info cfg (Some a) v) = v) \<and>
   (PLIBSYS_SOCKADDR_IN6_HAS_SCOPEID cfg \<and> family a = SOCKET_FAMILY_INET6 \<longrightarrow>
      socket_address_get_scope_id cfg (socket_address_set_scope_id cfg (Some a) v) = v) \<and>
   (\<not> (PLIBSYS_SOCKADDR_IN6_HAS_FLOWINFO cfg \<and> family a = SOCKET_FAMILY_INET6) \<longrightarrow>
      socket_address_set_flow_info cfg (Some a) v = Some a \<and>
      socket_address_get_flow_info cfg (Some a) = 0) \<and>
   (\<not> (PLIBSYS_SOCKADDR_IN6_HAS_SCOPEID cfg \<and> family a = SOCKET_FAMILY_INET6) \<longrightarrow>
      socket_address_set_scope_id cfg (Some a) v = Some a \<and>
      socket_address_get_scope_id cfg (Some a) = 0)"
  by (simp add: socket_address_get_flow_info_def socket_address_set_flow_info_def
      socket_address_get_scope_id_def socket_address_set_scope_id_def)

lemma from_native_w_result:
  "fst (socket_address_new_from_native_w native len w) =
     socket_address_new_from_native (0 < ret_val (os w (length (calls w)))) native len"
  by (cases native)
     (auto simp: socket_address_new_from_native_w_def socket_address_new_from_native_def
        calloc_SocketAddress_def os_syscall_def Let_def split: option.splits)

lemma from_native_w_no_length:
  "socket_address_new_from_native_w native 0 w = (None, w)"
  by (simp add: socket_address_new_from_native_w_def)

subsection \<open>The error classification\<close>

text \<open>
  Claim C2. \<^verbatim>\<open>error_get_io_from_system\<close> is total and closed over the 23 portable kinds:
  for every 32-bit error number the result is one of the 23 enumerators of \<^verbatim>\<open>ErrorIO\<close>
  (whose numeric values are 500 to 522), the number 0 gives \<^verbatim>\<open>ERROR_IO_NONE\<close>, and every
  number that is not a \<^verbatim>\<open>case\<close> label of the \<^verbatim>\<open>switch\<close> gives \<^verbatim>\<open>ERROR_IO_FAILED\<close>.
\<close>

theorem error_get_io_from_system_total:
  "error_get_io_from_system e \<in> set ErrorIO_all \<and>
   length ErrorIO_all = 23 \<and> distinct ErrorIO_all \<and>
   500 \<le> uint (ErrorIO_value (error_get_io_from_system e)) \<and>
   uint (ErrorIO_value (error_get_io_from_system e)) \<le> 522 \<and>
   error_get_io_from_system 0 = ERROR_IO_NONE \<and>
   (e \<notin> set mapped_error_numbers \<longrightarrow> error_get_io_from_system e = ERROR_IO_FAILED)"
proof -
  have "length ErrorIO_all = 23" "distinct ErrorIO_all"
    by (simp_all add: ErrorIO_all_def)
  moreover have "error_get_io_from_system 0 = ERROR_IO_NONE"
    by (simp add: error_get_io_from_system_def)
  ultimately show ?thesis
    using ErrorIO_all_complete ErrorIO_value_range unmapped_is_failed by blast
qed

theorem error_get_io_from_system_total_witness:
  "(9999 :: int32_t) \<notin> set mapped_error_numbers \<and>
   error_get_io_from_system 9999 = ERROR_IO_FAILED \<and>
   error_get_io_from_system 9999 \<in> set ErrorIO_all"
  using error_get_io_from_system_total [of 9999]
  by (auto simp: mapped_error_numbers_def errno_defs)

subsection \<open>Socket addresses\<close>

text \<open>
  Claim C1, as the code has it. Memory is available (\<open>mem_ok\<close> is \<open>True\<close>).
  For a native buffer \<open>b\<close> with \<open>len\<close> readable bytes that carries an IPv4 or IPv6 tag
  and is long enough for its structure, and whose \<^verbatim>\<open>sin_zero\<close> padding is zero when it
  is IPv4, \<^verbatim>\<open>socket_address_to_native\<close> applied to
  \<^verbatim>\<open>socket_address_new_from_native (b, len)\<close> writes the bytes of \<open>b\<close>'s structure
  over the start of the destination and leaves the rest of the destination alone; when \<open>b\<close>
  is exactly one structure and the destination has its length, the destination becomes
  \<open>b\<close>. For every constructed address \<open>a\<close> and every destination that is large enough,
  \<^verbatim>\<open>socket_address_to_native\<close> succeeds and \<^verbatim>\<open>socket_address_new_from_native\<close> of the
  bytes it wrote is \<open>a\<close> again: the same family, address bytes, port, flow-info and
  scope-id.
\<close>

theorem socket_address_native_round_trip:
  "(well_formed_native b len \<and> sin_zero_clear b \<and>
    native_struct_size b \<le> destlen \<and> destlen \<le> length dest \<longrightarrow>
      socket_address_to_native (socket_address_new_from_native True (Some b) len)
        (Some dest) destlen
      = (True, Some (take (native_struct_size b) b @ drop (native_struct_size b) dest))) \<and>
   (well_formed_native b len \<and> sin_zero_clear b \<and> length b = native_struct_size b \<and>
    length dest = length b \<longrightarrow>
      socket_address_to_native (socket_address_new_from_native True (Some b) len)
        (Some dest) (length dest)
      = (True, Some b)) \<and>
   (constructed a \<and> socket_address_get_native_size (Some a) \<le> alen \<and> alen \<le> length adest \<longrightarrow>
      fst (socket_address_to_native (Some a) (Some adest) alen) \<and>
      socket_address_new_from_native True
        (snd (socket_address_to_native (Some a) (Some adest) alen)) alen = Some a)"
proof (intro conjI impI)
  assume "well_formed_native b len \<and> sin_zero_clear b \<and>
    native_struct_size b \<le> destlen \<and> destlen \<le> length dest"
  then show "socket_address_to_native (socket_address_new_from_native True (Some b) len)
        (Some dest) destlen
      = (True, Some (take (native_struct_size b) b @ drop (native_struct_size b) dest))"
    by (intro bytes_to_address_to_bytes) simp_all
next
  assume h: "well_formed_native b len \<and> sin_zero_clear b \<and> length b = native_struct_size b \<and>
    length dest = length b"
  then have "socket_address_to_native (socket_address_new_from_native True (Some b) len)
        (Some dest) (length dest)
      = (True, Some (take (native_struct_size b) b @ drop (native_struct_size b) dest))"
    by (intro bytes_to_address_to_bytes) simp_all
  with h show "socket_address_to_native (socket_address_new_from_native True (Some b) len)
        (Some dest) (length dest) = (True, Some b)"
    by simp
next
  assume h: "constructed a \<and> socket_address_get_native_size (Some a) \<le> alen \<and> alen \<le> length adest"
  then have r: "fst (socket_address_to_native (Some a) (Some adest) alen) \<and>
      socket_address_new_from_native True
        (snd (socket_address_to_native (Some a) (Some adest) alen)) alen = Some a"
    by (intro address_to_bytes_to_address) simp_all
  from r show "fst (socket_address_to_native (Some a) (Some adest) alen)" by simp
  from r show "socket_address_new_from_native True
        (snd (socket_address_to_native (Some a) (Some adest) alen)) alen = Some a" by simp
qed

theorem socket_address_native_round_trip_witness:
  "well_formed_native example_sockaddr_in 16 \<and>
   sin_zero_clear example_sockaddr_in \<and>
   socket_address_to_native
     (socket_address_new_from_native True (Some example_sockaddr_in) 16)
     (Some (replicate 16 255)) 16
   = (True, Some example_sockaddr_in) \<and>
   constructed example_address6 \<and>
   socket_address_new_from_native True
     (snd (socket_address_to_native (Some example_address6) (Some (replicate 28 255)) 28)) 28
   = Some example_address6"
proof -
  have t: "load16 example_sockaddr_in = AF_INET"
    by (simp add: example_sockaddr_in_def load16_def le16_def AF_INET_def)
  have l: "length example_sockaddr_in = 16"
    by (simp add: example_sockaddr_in_def)
  have n: "native_struct_size example_sockaddr_in = 16"
    by (simp add: native_struct_size_def t sizeof_sockaddr_in_def)
  have wf: "well_formed_native example_sockaddr_in 16"
    by (simp add: well_formed_native_def n t l)
  have z: "sin_zero_clear example_sockaddr_in"
    by (simp add: sin_zero_clear_def) (simp add: example_sockaddr_in_def numeral_eq_Suc)
  have c: "constructed example_address6"
    by (simp add: constructed_def example_address6_def)
  have sz: "socket_address_get_native_size (Some example_address6) = 28"
    by (simp add: socket_address_get_native_size_def sizeof_sockaddr_in6_def example_address6_def)
  show ?thesis
    using socket_address_native_round_trip
      [of example_sockaddr_in 16 16 "replicate 16 255" example_address6 28 "replicate 28 255"]
      wf z n l c sz
    by simp
qed

text \<open>
  Claim C1 as stated fails for IPv4 buffers with a non-zero padding byte:
  \<^verbatim>\<open>socket_address_new_from_native\<close> accepts the buffer and ignores \<^verbatim>\<open>sin_zero\<close>, and
  \<^verbatim>\<open>socket_address_to_native\<close> clears it with \<^verbatim>\<open>memset\<close>, so the bytes written differ
  from the buffer even when the destination held the buffer's own bytes before.
\<close>

theorem sin_zero_round_trip_counterexample:
  "well_formed_native example_sockaddr_in_padded 16 \<and>
   length example_sockaddr_in_padded = native_struct_size example_sockaddr_in_padded \<and>
   socket_address_to_native
     (socket_address_new_from_native True (Some example_sockaddr_in_padded) 16)
     (Some example_sockaddr_in_padded) 16
   = (True, Some example_sockaddr_in) \<and>
   example_sockaddr_in \<noteq> example_sockaddr_in_padded"
proof -
  have t: "load16 example_sockaddr_in_padded = AF_INET"
    by (simp add: example_sockaddr_in_padded_def load16_def le16_def AF_INET_def)
  have "take 16 example_sockaddr_in_padded = example_sockaddr_in_padded"
    by (simp add: example_sockaddr_in_padded_def)
  have "socket_address_new_from_native True (Some example_sockaddr_in_padded) 16 =
     Some \<lparr>family = SOCKET_FAMILY_INET, addr = [127, 0, 0, 1] @ replicate 12 0,
           port = ntohs (load16 [0x1f, 0x90]), flowinfo = 0, scope_id = 0\<rparr>"
    using from_native_inet [OF t, of 16]
    by (simp add: example_sockaddr_in_padded_def load16_def)
  moreover have "store16 (htons (ntohs (load16 [0x1f, 0x90]))) = [0x1f, 0x90]"
    using store16_load16 [of "[0x1f, 0x90]"] by (simp add: htons_ntohs)
  moreover have "store16 AF_INET = [2, 0]"
    by (simp add: store16_def AF_INET_def)
  ultimately have "socket_address_to_native
     (socket_address_new_from_native True (Some example_sockaddr_in_padded) 16)
     (Some example_sockaddr_in_padded) 16 = (True, Some example_sockaddr_in)"
    by (simp add: to_native_inet example_sockaddr_in_def example_sockaddr_in_padded_def
        numeral_eq_Suc)
  moreover have "well_formed_native example_sockaddr_in_padded 16"
    by (simp add: well_formed_native_def native_struct_size_def t sizeof_sockaddr_in_def)
       (simp add: example_sockaddr_in_padded_def)
  moreover have "length example_sockaddr_in_padded = native_struct_size example_sockaddr_in_padded"
    by (simp add: native_struct_size_def t sizeof_sockaddr_in_def)
       (simp add: example_sockaddr_in_padded_def)
  moreover have "example_sockaddr_in \<noteq> example_sockaddr_in_padded"
    by (simp add: example_sockaddr_in_def example_sockaddr_in_padded_def)
  ultimately show ?thesis by blast
qed

text \<open>
  Claim C8. With a C library that parses the four texts as POSIX says
  (\<^verbatim>\<open>inet_pton\<close> accepts \<open>127.0.0.1\<close> and \<open>0.0.0.0\<close> and rejects \<open>not-an-address\<close> for
  both families, \<^verbatim>\<open>getaddrinfo\<close> resolves \<open>::1\<close> to an IPv6 \<^verbatim>\<open>sockaddr_in6\<close>) and with
  memory available, \<^verbatim>\<open>socket_address_new ("127.0.0.1", 8080)\<close> is a loopback address,
  \<^verbatim>\<open>socket_address_new ("0.0.0.0", 0)\<close> is an any-address,
  \<^verbatim>\<open>socket_address_new ("::1", 443)\<close> has family IPv6 and
  \<^verbatim>\<open>socket_address_new ("not-an-address", 80)\<close> returns \<^verbatim>\<open>NULL\<close>.
\<close>

theorem socket_address_new_numeric_parsing:
  assumes "inet_pton L AF_INET ''127.0.0.1'' = Some [127, 0, 0, 1]"
      and "inet_pton L AF_INET ''0.0.0.0'' = Some [0, 0, 0, 0]"
      and "getaddrinfo_numeric L ''::1'' = Some res"
      and "ai_family res = ucast AF_INET6" "ai_addrlen res = sizeof_sockaddr_in6"
          "length (ai_addr res) = sizeof_sockaddr_in6" "load16 (ai_addr res) = AF_INET6"
      and "inet_pton L AF_INET ''not-an-address'' = None"
      and "inet_pton L AF_INET6 ''not-an-address'' = None"
  shows "socket_address_is_loopback (socket_address_new L True (Some ''127.0.0.1'') 8080) \<and>
         socket_address_is_any (socket_address_new L True (Some ''0.0.0.0'') 0) \<and>
         socket_address_get_family (socket_address_new L True (Some ''::1'') 443)
           = SOCKET_FAMILY_INET6 \<and>
         socket_address_new L True (Some ''not-an-address'') 80 = None"
proof (intro conjI)
  show "socket_address_is_loopback (socket_address_new L True (Some ''127.0.0.1'') 8080)"
    using assms(1)
    by (simp add: socket_address_new_def calloc_SocketAddress_def socket_address_is_loopback_def
        memcpy_def sizeof_in_addr_def ntohl_def load32_def store32_def le32_def Let_def)
  show "socket_address_is_any (socket_address_new L True (Some ''0.0.0.0'') 0)"
    using assms(2)
    by (simp add: socket_address_new_def calloc_SocketAddress_def socket_address_is_any_def
        memcpy_def sizeof_in_addr_def ntohl_def load32_def store32_def le32_def Let_def
        INADDR_ANY_def)
  have tag: "load16 (memcpy (ai_addr res) 2 (store16 (htons 443)) 2) = AF_INET6"
  proof -
    obtain a b r where ab: "ai_addr res = a # b # r"
      using assms(6)
      by (cases "ai_addr res"; cases "tl (ai_addr res)") (auto simp: sizeof_sockaddr_in6_def)
    then show ?thesis using assms(7) by (simp add: memcpy_def load16_def)
  qed
  have "socket_address_new L True (Some ''::1'') 443 =
        socket_address_new_from_native True
          (Some (memcpy (ai_addr res) 2 (store16 (htons 443)) 2)) 28"
    using assms(3,4,5)
    by (simp add: socket_address_new_def sizeof_sockaddr_in6_def)
  moreover have "length (memcpy (ai_addr res) 2 (store16 (htons 443)) 2) = 28"
    using assms(6) by (simp add: memcpy_def length_store16 sizeof_sockaddr_in6_def)
  ultimately show "socket_address_get_family (socket_address_new L True (Some ''::1'') 443)
           = SOCKET_FAMILY_INET6"
    using from_native_inet6 [OF tag, of 28]
    by (simp add: socket_address_get_family_def)
  show "socket_address_new L True (Some ''not-an-address'') 80 = None"
    using assms(8,9)
    by (simp add: socket_address_new_def calloc_SocketAddress_def Let_def)
qed

theorem socket_address_new_numeric_parsing_witness:
  "socket_address_is_loopback (socket_address_new example_libc True (Some ''127.0.0.1'') 8080) \<and>
   socket_address_is_any (socket_address_new example_libc True (Some ''0.0.0.0'') 0) \<and>
   socket_address_get_family (socket_address_new example_libc True (Some ''::1'') 443)
     = SOCKET_FAMILY_INET6 \<and>
   socket_address_new example_libc True (Some ''not-an-address'') 80 = None"
proof (rule socket_address_new_numeric_parsing)
  show "inet_pton example_libc AF_INET ''127.0.0.1'' = Some [127, 0, 0, 1]"
    by (simp add: example_libc_def)
  show "inet_pton example_libc AF_INET ''0.0.0.0'' = Some [0, 0, 0, 0]"
    by (simp add: example_libc_def)
  show "getaddrinfo_numeric example_libc ''::1'' =
    Some \<lparr>ai_family = 10, ai_addrlen = 28,
                   ai_addr = [10, 0, 0, 0, 0, 0, 0, 0,
                              0, 0, 0, 0, 0, 0, 0, 0, 0, 0, 0, 0, 0, 0, 0, 1,
                              0, 0, 0, 0]\<rparr>"
    by (simp add: example_libc_def)
  show "inet_pton example_libc AF_INET ''not-an-address'' = None"
    by (simp add: example_libc_def)
  show "inet_pton example_libc AF_INET6 ''not-an-address'' = None"
    by (simp add: example_libc_def)
qed (simp_all add: load16_def le16_def AF_INET6_def sizeof_sockaddr_in6_def)

text \<open>
  Claim C9 says that the flow-info and scope-id setters take effect exactly on IPv6
  addresses. For addresses that are not IPv6 the code agrees (lemma
  \<open>flow_info_scope_id_by_build\<close>). For IPv6 addresses the build the repository ships does
  not: the capability queries answer that both fields are supported, and
  \<^verbatim>\<open>socket_address_new_from_native\<close> and \<^verbatim>\<open>socket_address_to_native\<close> carry both
  fields (the address read from \<open>example_sockaddr_in6\<close> holds flow-info 5 and scope-id 2 and
  writes them back), yet the getters return 0 on that address, the setters leave it as it
  is, and the getters still return 0 after 7 was set.
\<close>

theorem flow_info_lost_in_shipped_build:
  "socket_address_is_flow_info_supported \<and> socket_address_is_scope_id_supported \<and>
   socket_address_new_from_native True (Some example_sockaddr_in6) 28 = Some example_address6 \<and>
   family example_address6 = SOCKET_FAMILY_INET6 \<and>
   flowinfo example_address6 = 5 \<and> scope_id example_address6 = 2 \<and>
   socket_address_to_native (Some example_address6) (Some (replicate 28 0)) 28 =
     (True, Some example_sockaddr_in6) \<and>
   socket_address_get_flow_info shipped_build (Some example_address6) = 0 \<and>
   socket_address_get_scope_id shipped_build (Some example_address6) = 0 \<and>
   socket_address_set_flow_info shipped_build (Some example_address6) 7 =
     Some example_address6 \<and>
   socket_address_set_scope_id shipped_build (Some example_address6) 7 =
     Some example_address6 \<and>
   socket_address_get_flow_info shipped_build
     (socket_address_set_flow_info shipped_build (Some example_address6) 7) = 0 \<and>
   socket_address_get_scope_id shipped_build
     (socket_address_set_scope_id shipped_build (Some example_address6) 7) = 0"
proof -
  have t: "load16 example_sockaddr_in6 = AF_INET6"
    by (simp add: example_sockaddr_in6_def load16_def le16_def AF_INET6_def)
  have p: "load16 [0x01, 0xbb] = htons 443"
    by (simp add: htons_def load16_def store16_def le16_def)
  have f: "load32 [5, 0, 0, 0] = 5" "load32 [2, 0, 0, 0] = 2"
    by (simp_all add: load32_def le32_def)
  have n: "socket_address_new_from_native True (Some example_sockaddr_in6) 28 =
           Some example_address6"
    using from_native_inet6 [OF t, of 28]
    by (simp add: example_sockaddr_in6_def example_address6_def load16_def [of "_ # _ # _ # _"]
        load32_def [of "_ # _ # _ # _ # _"] p [unfolded load16_def, simplified] ntohs_htons
        f [unfolded load32_def, simplified])
  have a: "family example_address6 = SOCKET_FAMILY_INET6" "flowinfo example_address6 = 5"
          "scope_id example_address6 = 2" "length (addr example_address6) = 16"
    by (simp_all add: example_address6_def)
  have wr: "socket_address_to_native (Some example_address6) (Some (replicate 28 0)) 28 =
              (True, Some example_sockaddr_in6)"
  proof -
    have "socket_address_to_native (socket_address_new_from_native True
             (Some example_sockaddr_in6) 28) (Some (replicate 28 0)) 28
          = (True, Some (take 28 example_sockaddr_in6 @ drop 28 (replicate 28 0)))"
      by (rule native_inet6_roundtrip [OF t]) (simp_all add: example_sockaddr_in6_def)
    then show ?thesis
      by (simp add: n) (simp add: example_sockaddr_in6_def)
  qed
  show ?thesis
    using n a wr
    by (simp add: socket_address_is_flow_info_supported_def
        socket_address_is_scope_id_supported_def shipped_build_def
        socket_address_get_flow_info_def socket_address_set_flow_info_def
        socket_address_get_scope_id_def socket_address_set_scope_id_def)
qed

subsection \<open>Socket handles\<close>

text \<open>
  Claim C10. The accessors and the release functions accept a \<^verbatim>\<open>NULL\<close> handle:
  \<^verbatim>\<open>socket_get_fd (NULL)\<close> is \<open>-1\<close>, \<^verbatim>\<open>socket_is_closed (NULL)\<close> is true,
  \<^verbatim>\<open>socket_is_connected (NULL)\<close> is false, \<^verbatim>\<open>socket_address_get_family (NULL)\<close> is
  \<^verbatim>\<open>SOCKET_FAMILY_UNKNOWN\<close>, \<^verbatim>\<open>socket_address_get_port (NULL)\<close> is 0, and
  \<^verbatim>\<open>socket_address_free (NULL)\<close> and \<^verbatim>\<open>socket_free (NULL)\<close> leave the world as it
  was: no call to the system, no change of the error state.
\<close>

theorem null_handle_defaults:
  "socket_get_fd None = - 1 \<and> sint (socket_get_fd None) = - 1 \<and>
   socket_is_closed None = True \<and>
   socket_is_connected None = False \<and>
   socket_address_get_family None = SOCKET_FAMILY_UNKNOWN \<and>
   socket_address_get_port None = 0 \<and>
   socket_address_free None w = w \<and>
   socket_free None w = w"
  by (simp add: socket_get_fd_def socket_is_closed_def socket_is_connected_def
      socket_address_get_family_def socket_address_get_port_def socket_address_free_def
      socket_free_def)

text \<open>
  Claim C7. \<^verbatim>\<open>socket_close\<close> is idempotent. On a socket whose \<^verbatim>\<open>closed\<close> flag is set
  it returns true and changes neither the socket nor the world. When a close of an open
  socket succeeds, the socket it leaves is closed, not connected, not listening and has
  descriptor \<open>-1\<close>; exactly one \<^verbatim>\<open>close\<close> of the old descriptor was added to the
  calls; and in every later world \<^verbatim>\<open>socket_close\<close> returns true again without a call,
  so the descriptor is released once.
\<close>

theorem socket_close_idempotent:
  "(closed s \<longrightarrow> socket_close (Some s) w = (True, Some s, w)) \<and>
   (\<not> closed s \<and> socket_close (Some s) w = (True, sock', w') \<longrightarrow>
      (case sock' of
         None \<Rightarrow> False
       | Some s' \<Rightarrow> closed s' \<and> \<not> connected s' \<and> \<not> listening s' \<and> fd s' = - 1) \<and>
      calls w' = calls w @ [SYS_close (fd s)] \<and>
      (\<forall>w''. socket_close sock' w'' = (True, sock', w'')) \<and>
      length (filter is_close (calls (snd (snd (socket_close sock' w'))))) =
        length (filter is_close (calls w)) + 1)"
proof (intro conjI impI)
  show "socket_close (Some s) w = (True, Some s, w)" if "closed s"
    using that by (rule socket_close_closed)
next
  assume a: "\<not> closed s \<and> socket_close (Some s) w = (True, sock', w')"
  let ?s' = "s\<lparr>connected := False, closed := True, listening := False, fd := - 1\<rparr>"
  from a have s': "sock' = Some ?s'" and c: "calls w' = calls w @ [SYS_close (fd s)]"
    using socket_close_open [of s w sock' w'] by simp_all
  have again: "socket_close sock' w'' = (True, sock', w'')" for w''
    unfolding s' by (rule socket_close_closed) simp
  show "case sock' of None \<Rightarrow> False
        | Some s' \<Rightarrow> closed s' \<and> \<not> connected s' \<and> \<not> listening s' \<and> fd s' = - 1"
    by (simp add: s')
  show "calls w' = calls w @ [SYS_close (fd s)]" by (rule c)
  show "\<forall>w''. socket_close sock' w'' = (True, sock', w'')" using again by blast
  show "length (filter is_close (calls (snd (snd (socket_close sock' w'))))) =
        length (filter is_close (calls w)) + 1"
    by (simp add: again c)
qed

theorem socket_close_idempotent_witness:
  "\<not> closed example_socket \<and>
   socket_close (Some example_socket) (initial_world (always (Ok 0 [] []))) =
     (True,
      Some (example_socket\<lparr>connected := False, closed := True, listening := False, fd := - 1\<rparr>),
      (initial_world (always (Ok 0 [] [])))\<lparr>calls := [SYS_close 3]\<rparr>) \<and>
   socket_close
     (Some (example_socket\<lparr>connected := False, closed := True, listening := False, fd := - 1\<rparr>))
     ((initial_world (always (Ok 0 [] [])))\<lparr>calls := [SYS_close 3]\<rparr>) =
     (True,
      Some (example_socket\<lparr>connected := False, closed := True, listening := False, fd := - 1\<rparr>),
      (initial_world (always (Ok 0 [] [])))\<lparr>calls := [SYS_close 3]\<rparr>)"
proof -
  let ?w = "initial_world (always (Ok 0 [] []))"
  let ?s' = "example_socket\<lparr>connected := False, closed := True, listening := False, fd := - 1\<rparr>"
  let ?w' = "?w\<lparr>calls := [SYS_close 3]\<rparr>"
  have o: "\<not> closed example_socket"
    by (simp add: example_socket_def)
  have c: "socket_close (Some example_socket) ?w = (True, Some ?s', ?w')"
    by (simp add: socket_close_def sys_close_def os_syscall_def example_socket_def
        initial_world_def always_def Let_def)
  show ?thesis
    using socket_close_idempotent [of example_socket ?w "Some ?s'" ?w'] o c by simp
qed

text \<open>
  Claim C3, as the code has it. On a socket whose \<^verbatim>\<open>closed\<close> flag is set, each of
  \<^verbatim>\<open>socket_bind\<close>, \<^verbatim>\<open>socket_connect\<close>, \<^verbatim>\<open>socket_listen\<close>, \<^verbatim>\<open>socket_accept\<close>,
  \<^verbatim>\<open>socket_receive\<close>, \<^verbatim>\<open>socket_receive_from\<close>, \<^verbatim>\<open>socket_send\<close>, \<^verbatim>\<open>socket_send_to\<close>,
  \<^verbatim>\<open>socket_shutdown\<close>, \<^verbatim>\<open>socket_set_buffer_size\<close> and \<^verbatim>\<open>socket_io_condition_wait\<close>
  returns its failure value (\<^verbatim>\<open>false\<close>, \<^verbatim>\<open>NULL\<close> or \<open>-1\<close>) whatever fuel it has, and
  the world it leaves differs from the one it found only in the error state: no call is
  made. The error recorded is not-available when the other arguments pass the
  operation's own \<^verbatim>\<open>NULL\<close> and zero-length tests, which come before the test of the
  \<^verbatim>\<open>closed\<close> flag, and invalid-argument when they do not.
\<close>

theorem closed_handle_guard:
  assumes "closed s"
  shows "socket_bind (Some s) address allow_reuse w =
           (False, if address = None then invalid_argument w else not_available w) \<and>
         socket_connect B fuel (Some s) address w =
           Some (False, Some s, if address = None then invalid_argument w else not_available w) \<and>
         socket_listen (Some s) w = (False, Some s, not_available w) \<and>
         socket_accept B fuel (Some s) w = Some (None, not_available w) \<and>
         socket_receive B fuel (Some s) buffer buflen w =
           Some (- 1, buffer, if buffer = None then invalid_argument w else not_available w) \<and>
         socket_receive_from B fuel (Some s) want_address buffer buflen w =
           Some (- 1, None, buffer,
                 if buffer = None \<or> buflen = 0 then invalid_argument w else not_available w) \<and>
         socket_send B fuel (Some s) buffer buflen w =
           Some (- 1, if buffer = None \<or> buflen = 0 then invalid_argument w
                      else not_available w) \<and>
         socket_send_to B fuel (Some s) address buffer buflen w =
           Some (- 1, if address = None \<or> buffer = None then invalid_argument w
                      else not_available w) \<and>
         socket_shutdown (Some s) shutdown_read shutdown_write w =
           (False, Some s, not_available w) \<and>
         socket_set_buffer_size (Some s) dir sz w = (False, not_available w) \<and>
         socket_io_condition_wait B fuel (Some s) cond w = Some (False, not_available w) \<and>
         calls (not_available w) = calls w \<and>
         calls (invalid_argument w) = calls w \<and>
         error_get_code (not_available w) = ErrorIO_value ERROR_IO_NOT_AVAILABLE \<and>
         error_get_code (invalid_argument w) = ErrorIO_value ERROR_IO_INVALID_ARGUMENT"
proof -
  note c = check_closed [OF assms]
  have "socket_bind (Some s) address allow_reuse w =
           (False, if address = None then invalid_argument w else not_available w)"
    by (simp add: socket_bind_def c invalid_argument_def)
  moreover have "socket_connect B fuel (Some s) address w =
           Some (False, Some s, if address = None then invalid_argument w else not_available w)"
    by (simp add: socket_connect_def c invalid_argument_def)
  moreover have "socket_listen (Some s) w = (False, Some s, not_available w)"
    by (simp add: socket_listen_def c)
  moreover have "socket_accept B fuel (Some s) w = Some (None, not_available w)"
    by (simp add: socket_accept_def c)
  moreover have "socket_receive B fuel (Some s) buffer buflen w =
           Some (- 1, buffer, if buffer = None then invalid_argument w else not_available w)"
    by (cases buffer) (simp_all add: socket_receive_def c invalid_argument_def)
  moreover have "socket_receive_from B fuel (Some s) want_address buffer buflen w =
           Some (- 1, None, buffer,
                 if buffer = None \<or> buflen = 0 then invalid_argument w else not_available w)"
    by (cases buffer) (simp_all add: socket_receive_from_def c invalid_argument_def)
  moreover have "socket_send B fuel (Some s) buffer buflen w =
           Some (- 1, if buffer = None \<or> buflen = 0 then invalid_argument w
                      else not_available w)"
    by (cases buffer) (simp_all add: socket_send_def c invalid_argument_def)
  moreover have "socket_send_to B fuel (Some s) address buffer buflen w =
           Some (- 1, if address = None \<or> buffer = None then invalid_argument w
                      else not_available w)"
    by (cases buffer) (simp_all add: socket_send_to_def c invalid_argument_def)
  moreover have "socket_shutdown (Some s) shutdown_read shutdown_write w =
           (False, Some s, not_available w)"
    by (simp add: socket_shutdown_def c)
  moreover have "socket_set_buffer_size (Some s) dir sz w = (False, not_available w)"
    by (simp add: socket_set_buffer_size_def c)
  moreover have "socket_io_condition_wait B fuel (Some s) cond w = Some (False, not_available w)"
    by (simp add: socket_io_condition_wait_def c)
  ultimately show ?thesis
    using failure_worlds [of w] by simp
qed

theorem closed_handle_guard_witness:
  "closed example_closed_socket \<and>
   socket_receive SOCKET_USE_POLL 1 (Some example_closed_socket) (Some [0, 0]) 2
     (initial_world (always (Ok 0 [] []))) =
     Some (- 1, Some [0, 0], not_available (initial_world (always (Ok 0 [] [])))) \<and>
   socket_listen (Some example_closed_socket) (initial_world (always (Ok 0 [] []))) =
     (False, Some example_closed_socket, not_available (initial_world (always (Ok 0 [] [])))) \<and>
   calls (not_available (initial_world (always (Ok 0 [] [])))) = []"
proof -
  have c: "closed example_closed_socket"
    by (simp add: example_closed_socket_def)
  show ?thesis
    using closed_handle_guard [OF c, of "None" False "initial_world (always (Ok 0 [] []))"
        SOCKET_USE_POLL 1 "Some [0, 0]" 2] c
    by (simp add: initial_world_def)
qed

text \<open>
  Claim C3 as stated fails when another argument is invalid: \<^verbatim>\<open>socket_receive\<close> on a
  closed socket with a \<^verbatim>\<open>NULL\<close> buffer records invalid-argument, not not-available.
\<close>

theorem closed_handle_null_buffer_counterexample:
  "closed example_closed_socket \<and>
   socket_receive SOCKET_USE_POLL 1 (Some example_closed_socket) None 16
     (initial_world (always (Ok 0 [] []))) =
     Some (- 1, None, invalid_argument (initial_world (always (Ok 0 [] [])))) \<and>
   error_get_code (invalid_argument (initial_world (always (Ok 0 [] [])))) =
     ErrorIO_value ERROR_IO_INVALID_ARGUMENT \<and>
   ErrorIO_value ERROR_IO_INVALID_ARGUMENT \<noteq> ErrorIO_value ERROR_IO_NOT_AVAILABLE"
  by (simp add: example_closed_socket_def socket_receive_def invalid_argument_def
      error_set_error_def error_get_code_def)

text \<open>
  Claim C5, as the code has it. On an open socket with \<^verbatim>\<open>blocking == false\<close> and an
  address of a known family, when \<^verbatim>\<open>connect\<close>, after being interrupted \<open>n\<close> times,
  fails with an error number that classifies as would-block or in-progress, then
  \<^verbatim>\<open>socket_connect\<close> (with fuel for more than \<open>n\<close> iterations) returns false and
  leaves the socket as it was; the only calls it made are the \<open>n + 1\<close> calls of
  \<^verbatim>\<open>connect\<close>, so no readiness wait; and the error state records the kind the error
  number classifies to (would-block or in-progress, as the case may be) with the error
  number as native code.
\<close>

theorem nonblocking_connect_pending:
  assumes op: "\<not> closed s" and nb: "\<not> blocking s" and fam: "family a \<noteq> SOCKET_FAMILY_UNKNOWN"
      and intr: "\<forall>i<n. os w (length (calls w) + i) = Fail EINTR"
      and last: "os w (length (calls w) + n) = Fail e"
      and kind: "error_get_io_from_system e = ERROR_IO_WOULD_BLOCK \<or>
                 error_get_io_from_system e = ERROR_IO_IN_PROGRESS"
      and fuel: "n < fuel"
  shows "socket_connect B fuel (Some s) (Some a) w =
     Some (False, Some s,
       error_set_error (ErrorIO_value (error_get_io_from_system e)) e
         ''Couldn't block non-blocking socket''
         (w\<lparr>calls := calls w @ replicate (Suc n)
                (SYS_connect (fd s) (native_in_local w a)
                   (socket_address_get_native_size (Some a))),
            errno := e\<rparr>))"
proof -
  let ?c = "SYS_connect (fd s) (native_in_local w a) (socket_address_get_native_size (Some a))"
  let ?w1 = "w\<lparr>calls := calls w @ replicate n ?c, errno := (if n = 0 then errno w else EINTR)\<rparr>"
  from fuel obtain k where k: "fuel = n + Suc k"
    by (metis add_Suc_right less_iff_Suc_add)
  from kind have ne: "e \<noteq> EINTR"
    using classify_EINTR by auto
  have l: "os ?w1 (length (calls ?w1)) = Fail e"
    using last by simp
  have "connect_loop fuel (fd s) (native_in_local w a)
          (socket_address_get_native_size (Some a)) w =
        connect_loop (Suc k) (fd s) (native_in_local w a)
          (socket_address_get_native_size (Some a)) ?w1"
    unfolding k using intr by (rule connect_loop_interrupted)
  also have "\<dots> = Some (- 1, ?w1\<lparr>calls := calls ?w1 @ [?c], errno := e\<rparr>)"
    using ne by (simp add: syscall_fail [OF l] error_get_last_net_def error_get_last_system_def)
  finally have loop: "connect_loop fuel (fd s) (native_in_local w a)
          (socket_address_get_native_size (Some a)) w =
        Some (- 1, w\<lparr>calls := calls w @ replicate (Suc n) ?c, errno := e\<rparr>)"
    by (simp add: replicate_append_same)
  show ?thesis
    using kind nb
    by (auto simp: socket_connect_def check_open [OF op] to_native_storage [OF fam]
        loop error_get_last_net_def error_get_last_system_def)
qed

theorem nonblocking_connect_pending_witness:
  "\<not> closed example_nonblocking_socket \<and> \<not> blocking example_nonblocking_socket \<and>
   error_get_io_from_system EAGAIN = ERROR_IO_WOULD_BLOCK \<and>
   socket_connect SOCKET_USE_POLL 2 (Some example_nonblocking_socket) (Some example_address4)
     (initial_world (replies [Fail EINTR] (Fail EAGAIN))) =
     Some (False, Some example_nonblocking_socket,
       error_set_error (ErrorIO_value ERROR_IO_WOULD_BLOCK) EAGAIN
         ''Couldn't block non-blocking socket''
         ((initial_world (replies [Fail EINTR] (Fail EAGAIN)))
            \<lparr>calls := replicate 2
                (SYS_connect 3
                   (native_in_local (initial_world (replies [Fail EINTR] (Fail EAGAIN)))
                      example_address4) 16),
             errno := EAGAIN\<rparr>))"
proof -
  let ?w = "initial_world (replies [Fail EINTR] (Fail EAGAIN))"
  have k: "error_get_io_from_system EAGAIN = ERROR_IO_WOULD_BLOCK"
    by (simp add: error_get_io_from_system_def errno_defs)
  have s: "\<not> closed example_nonblocking_socket" "\<not> blocking example_nonblocking_socket"
          "fd example_nonblocking_socket = 3"
    by (simp_all add: example_nonblocking_socket_def example_socket_def)
  have a: "family example_address4 \<noteq> SOCKET_FAMILY_UNKNOWN"
          "socket_address_get_native_size (Some example_address4) = 16"
    by (simp_all add: example_address4_def socket_address_get_native_size_def
        sizeof_sockaddr_in_def)
  have i: "\<forall>i<1. os ?w (length (calls ?w) + i) = Fail EINTR"
    by (simp add: initial_world_def replies_def)
  have l: "os ?w (length (calls ?w) + 1) = Fail EAGAIN"
    by (simp add: initial_world_def replies_def)
  have c: "calls ?w = []"
    by (simp add: initial_world_def)
  show ?thesis
    using nonblocking_connect_pending
      [of example_nonblocking_socket example_address4 1 ?w EAGAIN 2 SOCKET_USE_POLL]
      s a i l k c
    by (simp add: numeral_2_eq_2)
qed

text \<open>
  Claim C5 as stated fails where it says that the recorded error is the would-block kind:
  a non-blocking \<^verbatim>\<open>connect\<close> on Linux fails with \<^verbatim>\<open>EINPROGRESS\<close>, which classifies as
  in-progress, and that is the kind \<^verbatim>\<open>socket_connect\<close> records.
\<close>

theorem nonblocking_connect_in_progress_counterexample:
  "\<not> blocking example_nonblocking_socket \<and>
   socket_connect SOCKET_USE_POLL 1 (Some example_nonblocking_socket) (Some example_address4)
     (initial_world (always (Fail EINPROGRESS))) =
     Some (False, Some example_nonblocking_socket,
       error_set_error (ErrorIO_value ERROR_IO_IN_PROGRESS) EINPROGRESS
         ''Couldn't block non-blocking socket''
         ((initial_world (always (Fail EINPROGRESS)))
            \<lparr>calls := [SYS_connect 3
                (native_in_local (initial_world (always (Fail EINPROGRESS))) example_address4)
                16],
             errno := EINPROGRESS\<rparr>)) \<and>
   ErrorIO_value ERROR_IO_IN_PROGRESS \<noteq> ErrorIO_value ERROR_IO_WOULD_BLOCK"
proof -
  let ?w = "initial_world (always (Fail EINPROGRESS))"
  let ?buf = "native_in_local ?w example_address4"
  have k: "error_get_io_from_system EINPROGRESS = ERROR_IO_IN_PROGRESS" "EINPROGRESS \<noteq> EINTR"
    by (simp_all add: error_get_io_from_system_def errno_defs)
  have s: "\<not> closed example_nonblocking_socket" "\<not> blocking example_nonblocking_socket"
          "fd example_nonblocking_socket = 3"
    by (simp_all add: example_nonblocking_socket_def example_socket_def)
  have a: "family example_address4 \<noteq> SOCKET_FAMILY_UNKNOWN"
          "socket_address_get_native_size (Some example_address4) = 16"
    by (simp_all add: example_address4_def socket_address_get_native_size_def
        sizeof_sockaddr_in_def)
  have l: "os ?w (length (calls ?w)) = Fail EINPROGRESS"
    by (simp add: initial_world_def always_def)
  have c: "calls ?w = []"
    by (simp add: initial_world_def)
  have loop: "connect_loop (Suc 0) 3 ?buf 16 ?w =
      Some (- 1, ?w\<lparr>calls := [SYS_connect 3 ?buf 16], errno := EINPROGRESS\<rparr>)"
    using k(2) by (simp add: syscall_fail [OF l] c error_get_last_net_def
        error_get_last_system_def)
  show ?thesis
    using s(2)
    by (simp add: socket_connect_def check_open [OF s(1)] to_native_storage [OF a(1)] s(3) a(2)
        loop k(1) error_get_last_net_def error_get_last_system_def
        del: connect_loop.simps)
qed


text \<open>
  Claim C6. Let the socket be open. If the configured timeout is 0 (or, which
  \<^verbatim>\<open>socket_set_timeout\<close> excludes, negative), every call \<^verbatim>\<open>socket_io_condition_wait\<close>
  makes is the wait primitive without a time limit (\<^verbatim>\<open>poll\<close> with timeout \<open>-1\<close>,
  \<^verbatim>\<open>select\<close> with a \<^verbatim>\<open>NULL\<close> timeout), and, the primitive answering as it can when it
  has no time limit, a call that returns does not return a timed-out failure; when the
  primitive, after \<open>n\<close> interruptions, reports the descriptor ready, the wait returns true
  given fuel for more than \<open>n\<close> iterations. If the configured timeout is positive, the
  calls carry that time limit, and when the primitive, after \<open>n\<close> interruptions, reports
  that the time is up (return value 0), the wait returns false and the error state records
  \<^verbatim>\<open>ERROR_IO_TIMED_OUT\<close>.
\<close>

theorem readiness_wait_timeout_semantics:
  "(\<not> closed s \<and> sint (timeout s) \<le> 0 \<and>
    socket_io_condition_wait B fuel (Some s) cond w = Some (res, w') \<longrightarrow>
      unbounded_wait (wait_call B s cond) \<and>
      (\<exists>k. calls w' = calls w @ replicate (Suc k) (wait_call B s cond)) \<and>
      ((\<forall>i\<ge>length (calls w). unbounded_wait_reply (os w i)) \<longrightarrow>
         res \<or> error_get_code w' \<noteq> ErrorIO_value ERROR_IO_TIMED_OUT)) \<and>
   (\<not> closed s \<and> (\<forall>i<n. os w (length (calls w) + i) = Fail EINTR) \<and>
    ret_val (os w (length (calls w) + n)) = 1 \<and> n < fuel \<longrightarrow>
      socket_io_condition_wait B fuel (Some s) cond w =
        Some (True,
          w\<lparr>calls := calls w @ replicate (Suc n) (wait_call B s cond),
             errno := (if n = 0 then errno w else EINTR)\<rparr>)) \<and>
   (\<not> closed s \<and> 0 < sint (timeout s) \<and>
    (\<forall>i<n. os w (length (calls w) + i) = Fail EINTR) \<and>
    ret_val (os w (length (calls w) + n)) = 0 \<and> n < fuel \<longrightarrow>
      \<not> unbounded_wait (wait_call B s cond) \<and>
      socket_io_condition_wait B fuel (Some s) cond w =
        Some (False,
          error_set_error (ErrorIO_value ERROR_IO_TIMED_OUT) (if n = 0 then errno w else EINTR)
            ''Timed out while waiting socket condition''
            (w\<lparr>calls := calls w @ replicate (Suc n) (wait_call B s cond),
               errno := (if n = 0 then errno w else EINTR)\<rparr>)) \<and>
      error_get_code
        (error_set_error (ErrorIO_value ERROR_IO_TIMED_OUT) (if n = 0 then errno w else EINTR)
            ''Timed out while waiting socket condition''
            (w\<lparr>calls := calls w @ replicate (Suc n) (wait_call B s cond),
               errno := (if n = 0 then errno w else EINTR)\<rparr>))
        = ErrorIO_value ERROR_IO_TIMED_OUT)"
proof (intro conjI impI)
  assume h: "\<not> closed s \<and> sint (timeout s) \<le> 0 \<and>
    socket_io_condition_wait B fuel (Some s) cond w = Some (res, w')"
  then have run: "wait_loop B fuel s cond w = Some (res, w')"
    using wait_open [of s B fuel cond w] by auto
  from h show "unbounded_wait (wait_call B s cond)"
    by (simp add: wait_call_unbounded)
  from run show "\<exists>k. calls w' = calls w @ replicate (Suc k) (wait_call B s cond)"
    by (rule wait_loop_calls)
  assume "\<forall>i\<ge>length (calls w). unbounded_wait_reply (os w i)"
  with run show "res \<or> error_get_code w' \<noteq> ErrorIO_value ERROR_IO_TIMED_OUT"
    by (rule wait_loop_no_timeout)
next
  assume h: "\<not> closed s \<and> (\<forall>i<n. os w (length (calls w) + i) = Fail EINTR) \<and>
    ret_val (os w (length (calls w) + n)) = 1 \<and> n < fuel"
  then have "wait_loop B fuel s cond w =
        Some (True,
          w\<lparr>calls := calls w @ replicate (Suc n) (wait_call B s cond),
             errno := (if n = 0 then errno w else EINTR)\<rparr>)"
    by (intro wait_loop_ready) simp_all
  with h show "socket_io_condition_wait B fuel (Some s) cond w =
        Some (True,
          w\<lparr>calls := calls w @ replicate (Suc n) (wait_call B s cond),
             errno := (if n = 0 then errno w else EINTR)\<rparr>)"
    by (simp add: wait_open)
next
  assume h: "\<not> closed s \<and> 0 < sint (timeout s) \<and>
    (\<forall>i<n. os w (length (calls w) + i) = Fail EINTR) \<and>
    ret_val (os w (length (calls w) + n)) = 0 \<and> n < fuel"
  let ?w' = "error_set_error (ErrorIO_value ERROR_IO_TIMED_OUT) (if n = 0 then errno w else EINTR)
            ''Timed out while waiting socket condition''
            (w\<lparr>calls := calls w @ replicate (Suc n) (wait_call B s cond),
               errno := (if n = 0 then errno w else EINTR)\<rparr>)"
  from h show "\<not> unbounded_wait (wait_call B s cond)"
    by (simp add: wait_call_unbounded)
  from h have "wait_loop B fuel s cond w = Some (False, ?w')"
    by (intro wait_loop_times_out) simp_all
  with h show "socket_io_condition_wait B fuel (Some s) cond w = Some (False, ?w')"
    by (simp add: wait_open)
  show "error_get_code ?w' = ErrorIO_value ERROR_IO_TIMED_OUT"
    by (simp add: error_get_code_def error_set_error_def)
qed

theorem readiness_wait_timeout_semantics_witness:
  "timeout example_socket = 0 \<and>
   unbounded_wait (wait_call SOCKET_USE_POLL example_socket SOCKET_IO_CONDITION_POLLIN) \<and>
   socket_io_condition_wait SOCKET_USE_POLL 2 (Some example_socket) SOCKET_IO_CONDITION_POLLIN
     (initial_world (replies [Fail EINTR] (Ok 1 [] []))) =
     Some (True,
       (initial_world (replies [Fail EINTR] (Ok 1 [] [])))
         \<lparr>calls := replicate 2 (SYS_poll 3 POLLIN (- 1)), errno := EINTR\<rparr>) \<and>
   \<not> unbounded_wait
       (wait_call SOCKET_USE_SELECT (example_socket\<lparr>timeout := 250\<rparr>)
          SOCKET_IO_CONDITION_POLLOUT) \<and>
   socket_io_condition_wait SOCKET_USE_SELECT 2 (Some (example_socket\<lparr>timeout := 250\<rparr>))
     SOCKET_IO_CONDITION_POLLOUT (initial_world (replies [Fail EINTR] (Ok 0 [] []))) =
     Some (False,
       error_set_error (ErrorIO_value ERROR_IO_TIMED_OUT) EINTR
         ''Timed out while waiting socket condition''
         ((initial_world (replies [Fail EINTR] (Ok 0 [] [])))
            \<lparr>calls := replicate 2 (SYS_select 4 None (Some 3) (Some (0, 250000))),
              errno := EINTR\<rparr>))"
proof -
  let ?w1 = "initial_world (replies [Fail EINTR] (Ok 1 [] []))"
  let ?w0 = "initial_world (replies [Fail EINTR] (Ok 0 [] []))"
  let ?s = "example_socket\<lparr>timeout := 250\<rparr>"
  have s: "\<not> closed example_socket" "timeout example_socket = 0" "\<not> closed ?s"
          "0 < sint (timeout ?s)"
    by (simp_all add: example_socket_def)
  have c1: "wait_call SOCKET_USE_POLL example_socket SOCKET_IO_CONDITION_POLLIN =
            SYS_poll 3 POLLIN (- 1)"
    by (simp add: wait_call_def example_socket_def)
  have c0: "wait_call SOCKET_USE_SELECT ?s SOCKET_IO_CONDITION_POLLOUT =
            SYS_select 4 None (Some 3) (Some (0, 250000))"
    by (simp add: wait_call_def example_socket_def)
  have r1: "\<forall>i<1. os ?w1 (length (calls ?w1) + i) = Fail EINTR"
           "ret_val (os ?w1 (length (calls ?w1) + 1)) = 1" "calls ?w1 = []" "errno ?w1 = 0"
    by (simp_all add: initial_world_def replies_def)
  have r0: "\<forall>i<1. os ?w0 (length (calls ?w0) + i) = Fail EINTR"
           "ret_val (os ?w0 (length (calls ?w0) + 1)) = 0" "calls ?w0 = []" "errno ?w0 = 0"
    by (simp_all add: initial_world_def replies_def)
  show ?thesis
    using
      readiness_wait_timeout_semantics
        [of example_socket SOCKET_USE_POLL 2 SOCKET_IO_CONDITION_POLLIN ?w1 True
            "?w1\<lparr>calls := replicate 2 (SYS_poll 3 POLLIN (- 1)), errno := EINTR\<rparr>" 1]
      readiness_wait_timeout_semantics
        [of ?s SOCKET_USE_SELECT 2 SOCKET_IO_CONDITION_POLLOUT ?w0 False ?w0 1]
      s c1 c0 r1 r0
    by (simp add: numeral_2_eq_2)
qed


text \<open>
  Claim C4 says that \<^verbatim>\<open>socket_receive\<close>, \<^verbatim>\<open>socket_receive_from\<close>, \<^verbatim>\<open>socket_send\<close> and
  \<^verbatim>\<open>socket_send_to\<close> reject a \<^verbatim>\<open>NULL\<close> buffer and a zero-length buffer with \<open>-1\<close> and
  invalid-argument before any call to the system. All four reject a \<^verbatim>\<open>NULL\<close> buffer, and
  \<^verbatim>\<open>socket_receive_from\<close> and \<^verbatim>\<open>socket_send\<close> reject a zero length (lemmas
  \<open>null_buffer_rejected\<close> and \<open>zero_length_rejected\<close>). \<^verbatim>\<open>socket_receive\<close> and
  \<^verbatim>\<open>socket_send_to\<close> do not test the length: on an open non-blocking socket a zero
  length goes to \<^verbatim>\<open>recv\<close> and \<^verbatim>\<open>sendto\<close>, whose result is returned, and no error is
  recorded.
\<close>

theorem zero_length_transfer_reaches_system:
  "\<not> closed example_nonblocking_socket \<and>
   socket_receive SOCKET_USE_POLL 1 (Some example_nonblocking_socket) (Some [7, 7]) 0
     (initial_world (always (Ok 0 [] []))) =
     Some (0, Some [7, 7], (initial_world (always (Ok 0 [] [])))\<lparr>calls := [SYS_recv 3 0 0]\<rparr>) \<and>
   socket_send_to SOCKET_USE_POLL 1 (Some example_nonblocking_socket) (Some example_address4)
     (Some [7, 7]) 0 (initial_world (always (Ok 0 [] []))) =
     Some (0, (initial_world (always (Ok 0 [] [])))
                \<lparr>calls := [SYS_sendto 3 [7, 7] 0 0
                    (native_in_local (initial_world (always (Ok 0 [] []))) example_address4)
                    16]\<rparr>)"
proof -
  let ?w = "initial_world (always (Ok 0 [] []))"
  have s: "\<not> closed example_nonblocking_socket" "\<not> blocking example_nonblocking_socket"
          "fd example_nonblocking_socket = 3"
    by (simp_all add: example_nonblocking_socket_def example_socket_def)
  have a: "family example_address4 \<noteq> SOCKET_FAMILY_UNKNOWN"
          "socket_address_get_native_size (Some example_address4) = 16"
    by (simp_all add: example_address4_def socket_address_get_native_size_def
        sizeof_sockaddr_in_def)
  have l: "os ?w (length (calls ?w)) = Ok 0 [] []"
    by (simp add: initial_world_def always_def)
  have c: "calls ?w = []"
    by (simp add: initial_world_def)
  have "socket_receive SOCKET_USE_POLL 1 (Some example_nonblocking_socket) (Some [7, 7]) 0 ?w =
     Some (0, Some [7, 7], ?w\<lparr>calls := [SYS_recv 3 0 0]\<rparr>)"
    by (simp add: socket_receive_def check_open [OF s(1)] wait_if_blocking_def s(2,3)
        syscall_ok [OF l] c memcpy_def)
  moreover have "socket_send_to SOCKET_USE_POLL 1 (Some example_nonblocking_socket)
     (Some example_address4) (Some [7, 7]) 0 ?w =
     Some (0, ?w\<lparr>calls := [SYS_sendto 3 [7, 7] 0 0 (native_in_local ?w example_address4) 16]\<rparr>)"
    by (simp add: socket_send_to_def check_open [OF s(1)] to_native_storage [OF a(1)]
        wait_if_blocking_def s(2,3) a(2) syscall_ok [OF l] c)
  ultimately show ?thesis using s(1) by simp
qed

end
